theory Spec2Isabelle
  imports Complex_Main
begin

section \<open>JavaScript values held in a user document\<close>

text \<open>
  The profile sections of \<open>src/models/User.js\<close> are objects whose fields are read with
  JavaScript truthiness (\<open>!!(a && b)\<close>). A field value is one of the JavaScript values
  below; numbers are exact rationals plus \<open>NaN\<close>, dates are milliseconds since the epoch.
\<close>

datatype jsval =
    JUndefined
  | JNull
  | JBool bool
  | JNum rat
  | JNaN
  | JStr string
  | JDate int
  | JArr "jsval list"
  | JObj "(string \<times> jsval) list"

text \<open>JavaScript \<open>ToBoolean\<close>: what \<open>&&\<close> and \<open>!!\<close> test.\<close>

fun truthy :: "jsval \<Rightarrow> bool" where
  "truthy JUndefined = False"
| "truthy JNull = False"
| "truthy (JBool b) = b"
| "truthy (JNum n) = (n \<noteq> 0)"
| "truthy JNaN = False"
| "truthy (JStr s) = (s \<noteq> [])"
| "truthy (JDate t) = True"
| "truthy (JArr xs) = True"
| "truthy (JObj kvs) = True"

text \<open>
  A section is an object: a finite map from field names to values. A section that does
  not exist yet is the empty object, which is what \<open>updateOnboardingSection\<close> creates
  before it writes.
\<close>

type_synonym section_doc = "string \<Rightarrow> jsval option"

text \<open>\<open>obj?.field\<close>: a missing field reads as \<open>undefined\<close>.\<close>

definition getProp :: "section_doc \<Rightarrow> string \<Rightarrow> jsval" where
  "getProp d k = (case d k of None \<Rightarrow> JUndefined | Some v \<Rightarrow> v)"

section \<open>Tokens\<close>

text \<open>
  Tokens are produced and checked by the third-party package \<open>jsonwebtoken\<close>, which is
  not part of the repository. A token string is therefore viewed through what that
  package reads from it: either it is not a JWT at all, or it has a header algorithm, the
  key its signature was computed with, and a payload. Times in a payload are in seconds.
\<close>

record jwt_payload =
  userId :: string
  tokenType :: "string option"
  jti :: "string option"
  iss :: "string option"
  aud :: "string option"
  sub :: "string option"
  nbf :: "int option"
  expiry :: "int option"

datatype jwt = NotJwt string | Jwt string string jwt_payload

text \<open>The error classes of the package, and what \<open>verifyToken\<close> can throw.\<close>

datatype jwt_error = JsonWebTokenError string | TokenExpiredError | NotBeforeError

datatype thrown = LibraryError jwt_error | PlainError string

text \<open>\<open>error.name\<close>, which the callers branch on.\<close>

fun error_name :: "thrown \<Rightarrow> string" where
  "error_name (LibraryError (JsonWebTokenError m)) = ''JsonWebTokenError''"
| "error_name (LibraryError TokenExpiredError) = ''TokenExpiredError''"
| "error_name (LibraryError NotBeforeError) = ''NotBeforeError''"
| "error_name (PlainError m) = ''Error''"

record verify_options =
  issuer :: string
  audience :: string
  algorithms :: "string list option"

text \<open>
  \<open>jwt.verify(token, secret, options)\<close> at the clock time \<open>now\<close> (milliseconds): it
  either throws one of its errors or returns the payload. It is a parameter of every
  function that calls it.
\<close>

type_synonym jwt_verify = "jwt \<Rightarrow> string \<Rightarrow> verify_options \<Rightarrow> int \<Rightarrow> jwt_error + jwt_payload"

text \<open>The variables of \<open>process.env\<close> that the token code reads.\<close>

record env =
  JWT_SECRET :: string
  JWT_ISSUER :: "string option"
  JWT_AUDIENCE :: "string option"
  JWT_EXPIRES_IN :: "string option"

text \<open>\<open>process.env.X || default\<close>: an unset or empty variable gives the default.\<close>

fun or_default :: "string option \<Rightarrow> string \<Rightarrow> string" where
  "or_default None d = d"
| "or_default (Some s) d = (if s = [] then d else s)"

text \<open>\<open>verifyToken(token, expectedType)\<close> of \<open>src/utils/jwt.js\<close> (lines 48--67).\<close>

definition verifyToken :: "jwt_verify \<Rightarrow> env \<Rightarrow> int \<Rightarrow> jwt \<Rightarrow> string \<Rightarrow> thrown + jwt_payload" where
  "verifyToken jv e now tok expectedType =
     (case jv tok (JWT_SECRET e)
             \<lparr> issuer = or_default (JWT_ISSUER e) ''fitness-app'',
               audience = or_default (JWT_AUDIENCE e) ''fitness-app-users'',
               algorithms = Some [''HS256''] \<rparr> now of
        Inl err \<Rightarrow> Inl (LibraryError err)
      | Inr decoded \<Rightarrow>
          if tokenType decoded \<noteq> Some expectedType
          then Inl (PlainError (''Invalid token type. Expected '' @ expectedType @ '', got '' @
                 (case tokenType decoded of None \<Rightarrow> ''undefined'' | Some t \<Rightarrow> t)))
          else Inr decoded)"

subsection \<open>What is assumed of the package\<close>

text \<open>
  The documented behaviour of \<open>jwt.verify\<close>, as far as the claims about the token
  service need it. Without an \<open>algorithms\<close> option a string secret admits the three HMAC
  algorithms. A payload is returned only for a token whose algorithm is admitted, whose
  signature was made with the secret, that is inside its validity period and whose issuer
  and audience are the expected ones; \<open>TokenExpiredError\<close> and \<open>NotBeforeError\<close> are
  thrown only for a properly signed token outside its validity period, and
  \<open>JsonWebTokenError\<close> only when the signature, algorithm, issuer or audience is wrong.
  With an empty or unset secret the package refuses every token (``secret or public key
  must be provided''), so no signature matches an empty secret.
\<close>

definition allowed_algorithms :: "verify_options \<Rightarrow> string list" where
  "allowed_algorithms opts =
     (case algorithms opts of Some as \<Rightarrow> as | None \<Rightarrow> [''HS256'', ''HS384'', ''HS512''])"

fun signature_ok :: "jwt \<Rightarrow> string \<Rightarrow> verify_options \<Rightarrow> bool" where
  "signature_ok (NotJwt s) secret opts = False"
| "signature_ok (Jwt a k p) secret opts =
     (secret \<noteq> [] \<and> a \<in> set (allowed_algorithms opts) \<and> k = secret)"

fun claims_of :: "jwt \<Rightarrow> jwt_payload option" where
  "claims_of (NotJwt s) = None"
| "claims_of (Jwt a k p) = Some p"

definition is_expired :: "jwt_payload \<Rightarrow> int \<Rightarrow> bool" where
  "is_expired p now = (case expiry p of None \<Rightarrow> False | Some t \<Rightarrow> t \<le> now div 1000)"

definition not_yet_valid :: "jwt_payload \<Rightarrow> int \<Rightarrow> bool" where
  "not_yet_valid p now = (case nbf p of None \<Rightarrow> False | Some t \<Rightarrow> now div 1000 < t)"

definition issuer_ok :: "jwt_payload \<Rightarrow> verify_options \<Rightarrow> bool" where
  "issuer_ok p opts = (iss p = Some (issuer opts))"

definition audience_ok :: "jwt_payload \<Rightarrow> verify_options \<Rightarrow> bool" where
  "audience_ok p opts = (aud p = Some (audience opts))"

definition jwt_verify_spec :: "jwt_verify \<Rightarrow> bool" where
  "jwt_verify_spec jv =
     (\<forall>tok secret opts now.
        case jv tok secret opts now of
          Inr d \<Rightarrow>
            signature_ok tok secret opts \<and> claims_of tok = Some d \<and>
            \<not> is_expired d now \<and> \<not> not_yet_valid d now \<and>
            issuer_ok d opts \<and> audience_ok d opts
        | Inl TokenExpiredError \<Rightarrow>
            signature_ok tok secret opts \<and>
            (\<exists>d. claims_of tok = Some d \<and> is_expired d now)
        | Inl NotBeforeError \<Rightarrow>
            signature_ok tok secret opts \<and>
            (\<exists>d. claims_of tok = Some d \<and> not_yet_valid d now)
        | Inl (JsonWebTokenError m) \<Rightarrow>
            \<not> signature_ok tok secret opts \<or>
            (\<exists>d. claims_of tok = Some d \<and> (\<not> issuer_ok d opts \<or> \<not> audience_ok d opts)))"

text \<open>
  One \<open>jwt.verify\<close> that meets the assumption, with the order of checks of the package:
  format, presence of the secret, algorithm, signature, not-before, expiry, audience,
  issuer.
\<close>

fun jwt_verify_ref :: jwt_verify where
  "jwt_verify_ref (NotJwt s) secret opts now = Inl (JsonWebTokenError ''jwt malformed'')"
| "jwt_verify_ref (Jwt a k p) secret opts now =
     (if secret = [] then Inl (JsonWebTokenError ''secret or public key must be provided'')
      else if a \<notin> set (allowed_algorithms opts)
      then Inl (JsonWebTokenError ''invalid algorithm'')
      else if k \<noteq> secret then Inl (JsonWebTokenError ''invalid signature'')
      else if not_yet_valid p now then Inl NotBeforeError
      else if is_expired p now then Inl TokenExpiredError
      else if \<not> audience_ok p opts then Inl (JsonWebTokenError ''jwt audience invalid'')
      else if \<not> issuer_ok p opts then Inl (JsonWebTokenError ''jwt issuer invalid'')
      else Inr p)"

section \<open>The user document\<close>

text \<open>
  The fields of the schema of \<open>src/models/User.js\<close> that the token lifecycle and the
  onboarding state machine read or write. The credentials (\<open>email\<close>, \<open>password\<close>,
  \<open>isEmailVerified\<close>), the timestamps, and the hooks that act on those fields only
  (password hashing, lower-casing of the email) are left out. Section values are kept as
  the request gives them; a \<open>save()\<close> is taken to pass the schema's validators.
\<close>

record tokenObj =
  token :: jwt
  createdAt :: int

record sessionInfo =
  completionTimestamp :: "int option"
  completionDate :: "string option"
  totalXPEarned :: int
  userLevel :: int
  sectionsCompleted :: int
  completionRate :: "string option"

record dataQuality =
  hasBasicInfo :: bool
  hasLifestyle :: bool
  hasMedicalHistory :: bool
  hasGoals :: bool
  hasPreferences :: bool
  completenessScore :: string

record user =
  uid :: string
  refreshTokens :: "tokenObj list"
  lastLoginAt :: "int option"
  onboardingCompleted :: bool
  onboardingStep :: int
  profileCompleteness :: int
  sessionInfo :: sessionInfo
  basicInfo :: section_doc
  lifestyle :: section_doc
  medicalHistory :: section_doc
  goals :: section_doc
  preferences :: section_doc
  labResults :: section_doc
  dataQuality :: dataQuality

text \<open>The schema defaults of a document created by \<open>new User({email, password})\<close>.\<close>

definition new_user :: "string \<Rightarrow> user" where
  "new_user i =
     \<lparr> uid = i, refreshTokens = [], lastLoginAt = None,
       onboardingCompleted = False, onboardingStep = 0, profileCompleteness = 0,
       sessionInfo = \<lparr> completionTimestamp = None, completionDate = None,
         totalXPEarned = 0, userLevel = 1, sectionsCompleted = 0, completionRate = None \<rparr>,
       basicInfo = Map.empty, lifestyle = Map.empty, medicalHistory = Map.empty,
       goals = Map.empty, preferences = Map.empty, labResults = Map.empty,
       dataQuality = \<lparr> hasBasicInfo = False, hasLifestyle = False,
         hasMedicalHistory = False, hasGoals = False, hasPreferences = False,
         completenessScore = ''0%'' \<rparr> \<rparr>"

section \<open>The pre-save hook: data quality and completeness\<close>

text \<open>Decimal rendering of a number inside a template literal.\<close>

fun digits :: "nat \<Rightarrow> string" where
  "digits n =
     (if n < 10 then [''0123456789'' ! n]
      else digits (n div 10) @ [''0123456789'' ! (n mod 10)])"

declare digits.simps [simp del]

definition template_int :: "int \<Rightarrow> string" where
  "template_int i = (if i < 0 then CHR ''-'' # digits (nat (- i)) else digits (nat i))"

text \<open>\<open>this.dataQuality[section]\<close> for the section names the hook iterates over.\<close>

definition sections :: "string list" where
  "sections = [''hasBasicInfo'', ''hasLifestyle'', ''hasMedicalHistory'', ''hasGoals'']"

definition flag :: "dataQuality \<Rightarrow> string \<Rightarrow> bool" where
  "flag dq s =
     (if s = ''hasBasicInfo'' then hasBasicInfo dq
      else if s = ''hasLifestyle'' then hasLifestyle dq
      else if s = ''hasMedicalHistory'' then hasMedicalHistory dq
      else if s = ''hasGoals'' then hasGoals dq
      else if s = ''hasPreferences'' then hasPreferences dq
      else False)"

text \<open>
  The second \<open>pre('save')\<close> hook of \<open>User.js\<close> (lines 364--424): the four required flags
  are recomputed from the sections, then the percentage, the score string and the
  automatic completion. \<open>Math.round\<close> rounds half up, as \<open>round\<close> does.
\<close>

definition pre_save :: "user \<Rightarrow> user" where
  "pre_save u =
     (let dq1 = (dataQuality u)
            \<lparr> hasBasicInfo :=
                (truthy (getProp (basicInfo u) ''name'') \<and>
                 truthy (getProp (basicInfo u) ''dateOfBirth'') \<and>
                 truthy (getProp (basicInfo u) ''height'') \<and>
                 truthy (getProp (basicInfo u) ''weight'')),
              hasLifestyle :=
                (truthy (getProp (lifestyle u) ''wakeUpTime'') \<and>
                 truthy (getProp (lifestyle u) ''sleepTime'') \<and>
                 truthy (getProp (lifestyle u) ''exerciseFrequency'')),
              hasMedicalHistory := truthy (getProp (medicalHistory u) ''gender''),
              hasGoals :=
                (truthy (getProp (goals u) ''primaryGoal'') \<and>
                 truthy (getProp (goals u) ''targetWeight'')) \<rparr>;
          completedSections = length (filter (flag dq1) sections);
          pc = round ((rat_of_nat completedSections / rat_of_nat (length sections)) * 100);
          dq2 = dq1 \<lparr> completenessScore := template_int pc @ ''%'' \<rparr>;
          u1 = u \<lparr> dataQuality := dq2, profileCompleteness := pc \<rparr>
      in if pc = 100 \<and> \<not> onboardingCompleted u1
         then u1 \<lparr> onboardingCompleted := True, onboardingStep := 6 \<rparr>
         else u1)"

section \<open>Section updates\<close>

datatype sectionName =
  BasicInfo | Lifestyle | MedicalHistory | Goals | Preferences | LabResults

text \<open>The \<open>stepMapping\<close> object of \<open>updateOnboardingSection\<close>; \<open>labResults\<close> has no entry.\<close>

fun stepMapping :: "sectionName \<Rightarrow> int option" where
  "stepMapping BasicInfo = Some 1"
| "stepMapping Lifestyle = Some 2"
| "stepMapping MedicalHistory = Some 3"
| "stepMapping Goals = Some 4"
| "stepMapping Preferences = Some 5"
| "stepMapping LabResults = None"

fun get_section :: "user \<Rightarrow> sectionName \<Rightarrow> section_doc" where
  "get_section u BasicInfo = basicInfo u"
| "get_section u Lifestyle = lifestyle u"
| "get_section u MedicalHistory = medicalHistory u"
| "get_section u Goals = goals u"
| "get_section u Preferences = preferences u"
| "get_section u LabResults = labResults u"

fun set_section :: "user \<Rightarrow> sectionName \<Rightarrow> section_doc \<Rightarrow> user" where
  "set_section u BasicInfo d = u \<lparr> basicInfo := d \<rparr>"
| "set_section u Lifestyle d = u \<lparr> lifestyle := d \<rparr>"
| "set_section u MedicalHistory d = u \<lparr> medicalHistory := d \<rparr>"
| "set_section u Goals d = u \<lparr> goals := d \<rparr>"
| "set_section u Preferences d = u \<lparr> preferences := d \<rparr>"
| "set_section u LabResults d = u \<lparr> labResults := d \<rparr>"

text \<open>The request body: its keys in order, each with its value.\<close>

type_synonym payload = "(string \<times> jsval) list"

text \<open>The \<open>forEach\<close> that keeps the keys whose value is neither \<open>undefined\<close> nor \<open>null\<close>.\<close>

fun cleanData :: "payload \<Rightarrow> payload" where
  "cleanData [] = []"
| "cleanData ((k, v) # kvs) =
     (if v \<noteq> JUndefined \<and> v \<noteq> JNull then (k, v) # cleanData kvs else cleanData kvs)"

text \<open>\<open>Object.assign(target, source)\<close>: the source's keys overwrite, in order.\<close>

fun assign :: "section_doc \<Rightarrow> payload \<Rightarrow> section_doc" where
  "assign d [] = d"
| "assign d ((k, v) # kvs) = assign (d(k \<mapsto> v)) kvs"

text \<open>
  \<open>updateOnboardingSection(sectionName, data)\<close> of \<open>User.js\<close> (lines 477--518), at the
  time \<open>now\<close> that \<open>new Date()\<close> returns.
\<close>

definition updateOnboardingSection :: "user \<Rightarrow> sectionName \<Rightarrow> payload \<Rightarrow> int \<Rightarrow> user" where
  "updateOnboardingSection u s data now =
     (let d = (assign (get_section u s) (cleanData data))(''completedAt'' \<mapsto> JDate now);
          u1 = set_section u s d
      in case stepMapping s of
           Some n \<Rightarrow> if onboardingStep u1 < n then u1 \<lparr> onboardingStep := n \<rparr> else u1
         | None \<Rightarrow> u1)"

text \<open>
  A section endpoint of \<open>onboardingController.js\<close> on a user that was found:
  \<open>user.updateOnboardingSection(name, req.body)\<close> followed by \<open>user.save()\<close>.
\<close>

definition updateSection :: "user \<Rightarrow> sectionName \<Rightarrow> payload \<Rightarrow> int \<Rightarrow> user" where
  "updateSection u s data now = pre_save (updateOnboardingSection u s data now)"

text \<open>A sequence of section updates on one user, each with its payload and its time.\<close>

fun updateSections :: "user \<Rightarrow> (sectionName \<times> payload \<times> int) list \<Rightarrow> user" where
  "updateSections u [] = u"
| "updateSections u ((s, data, now) # ops) = updateSections (updateSection u s data now) ops"

text \<open>The documents seen along such a sequence, the first one included.\<close>

fun updateTrace :: "user \<Rightarrow> (sectionName \<times> payload \<times> int) list \<Rightarrow> user list" where
  "updateTrace u [] = [u]"
| "updateTrace u ((s, data, now) # ops) = u # updateTrace (updateSection u s data now) ops"

section \<open>Refresh tokens on the user document\<close>

text \<open>\<open>isValidRefreshToken(token)\<close> of \<open>User.js\<close> (lines 571--577), at the time \<open>now\<close>.\<close>

definition isValidRefreshToken :: "user \<Rightarrow> jwt \<Rightarrow> int \<Rightarrow> bool" where
  "isValidRefreshToken u tok now =
     list_ex (\<lambda>tokenObj. token tokenObj = tok \<and> now < createdAt tokenObj + 604800000)
       (refreshTokens u)"

text \<open>\<open>cleanExpiredTokens()\<close> of \<open>User.js\<close> (lines 579--584).\<close>

definition cleanExpiredTokens :: "user \<Rightarrow> int \<Rightarrow> user" where
  "cleanExpiredTokens u now =
     u \<lparr> refreshTokens :=
           filter (\<lambda>tokenObj. now < createdAt tokenObj + 604800000) (refreshTokens u) \<rparr>"

section \<open>The authentication controller\<close>

datatype auth_response =
    ErrorJson nat string string
  | LoginJson string jwt jwt string
  | RefreshJson jwt string

text \<open>
  What a successful \<open>login\<close> does to the document (\<open>authController.js\<close>, lines 93--106):
  the new refresh token is pushed, \<open>slice(-5)\<close> keeps the last five entries when there
  are more, the login time is set and the document is saved.
\<close>

definition loginDocument :: "user \<Rightarrow> jwt \<Rightarrow> int \<Rightarrow> user" where
  "loginDocument u newRefreshToken now =
     (let pushed = refreshTokens u @ [\<lparr> token = newRefreshToken, createdAt = now \<rparr>];
          kept = (if length pushed > 5 then drop (length pushed - 5) pushed else pushed)
      in pre_save (u \<lparr> refreshTokens := kept, lastLoginAt := Some now \<rparr>))"

text \<open>
  \<open>login\<close> (lines 67--131). \<open>findByEmail\<close> is the store's lookup, \<open>comparePassword\<close> the
  password check of the document, and the two tokens are the ones that
  \<open>generateToken(user._id)\<close> and \<open>generateRefreshToken(user._id)\<close> return in this call.
  The result is the response and the document that was saved, if one was.
\<close>

definition login ::
  "(string \<Rightarrow> user option) \<Rightarrow> (user \<Rightarrow> string \<Rightarrow> bool) \<Rightarrow> env \<Rightarrow>
   string \<Rightarrow> string \<Rightarrow> jwt \<Rightarrow> jwt \<Rightarrow> int \<Rightarrow> auth_response \<times> user option" where
  "login findByEmail comparePassword e email password newAccessToken newRefreshToken now =
     (case findByEmail email of
        None \<Rightarrow>
          (ErrorJson 401 ''Invalid Credentials'' ''Email or password is incorrect'', None)
      | Some u \<Rightarrow>
          if \<not> comparePassword u password
          then (ErrorJson 401 ''Invalid Credentials'' ''Email or password is incorrect'', None)
          else (LoginJson (uid u) newAccessToken newRefreshToken
                  (or_default (JWT_EXPIRES_IN e) ''7d''),
                Some (loginDocument u newRefreshToken now)))"

text \<open>Successive successful logins of one user, each with its refresh token and its time.\<close>

fun logins :: "user \<Rightarrow> (jwt \<times> int) list \<Rightarrow> user" where
  "logins u [] = u"
| "logins u ((rt, now) # evs) = logins (loginDocument u rt now) evs"

text \<open>
  \<open>refreshToken\<close> (lines 231--302). The body's \<open>refreshToken\<close> field may be missing;
  \<open>!refreshToken\<close> also holds for the empty string. \<open>findById\<close> is the store's lookup and
  \<open>newAccessToken\<close> what \<open>generateToken(user._id)\<close> returns. No branch saves a document.
\<close>

definition refreshToken ::
  "jwt_verify \<Rightarrow> env \<Rightarrow> (string \<Rightarrow> user option) \<Rightarrow> jwt \<Rightarrow> int \<Rightarrow> jwt option \<Rightarrow>
   auth_response \<times> user option" where
  "refreshToken jv e findById newAccessToken now body =
     (case body of
        None \<Rightarrow>
          (ErrorJson 400 ''Refresh Token Required'' ''Please provide a refresh token'', None)
      | Some rt \<Rightarrow>
          if rt = NotJwt []
          then (ErrorJson 400 ''Refresh Token Required'' ''Please provide a refresh token'', None)
          else
            (case jv rt (JWT_SECRET e)
                    \<lparr> issuer = ''fitness-app'', audience = ''fitness-app-users'',
                      algorithms = None \<rparr> now of
               Inl err \<Rightarrow>
                 if error_name (LibraryError err) = ''JsonWebTokenError'' \<or>
                    error_name (LibraryError err) = ''TokenExpiredError''
                 then (ErrorJson 401 ''Invalid Refresh Token'' ''Please login again'', None)
                 else (ErrorJson 500 ''Token Refresh Failed''
                         ''An error occurred while refreshing token'', None)
             | Inr decoded \<Rightarrow>
                 if tokenType decoded \<noteq> Some ''refresh''
                 then (ErrorJson 401 ''Invalid Token Type''
                         ''Please provide a valid refresh token'', None)
                 else
                   (case findById (userId decoded) of
                      None \<Rightarrow> (ErrorJson 401 ''Invalid Token'' ''User no longer exists'', None)
                    | Some u \<Rightarrow>
                        if \<not> list_ex (\<lambda>tokenObj. token tokenObj = rt) (refreshTokens u)
                        then (ErrorJson 401 ''Invalid Refresh Token''
                                ''Refresh token is not valid or has been revoked'', None)
                        else (RefreshJson newAccessToken
                                (or_default (JWT_EXPIRES_IN e) ''7d''), None))))"

section \<open>The onboarding controller\<close>

record onboardingStatus =
  completed :: bool
  step :: int
  completeness :: int
  sectionsCompletedMap :: "(string \<times> bool) list"

text \<open>\<open>getOnboardingStatus()\<close> of \<open>User.js\<close> (lines 461--474).\<close>

definition getOnboardingStatus :: "user \<Rightarrow> onboardingStatus" where
  "getOnboardingStatus u =
     \<lparr> completed = onboardingCompleted u,
       step = onboardingStep u,
       completeness = profileCompleteness u,
       sectionsCompletedMap =
         [(''basicInfo'', hasBasicInfo (dataQuality u)),
          (''lifestyle'', hasLifestyle (dataQuality u)),
          (''medicalHistory'', hasMedicalHistory (dataQuality u)),
          (''goals'', hasGoals (dataQuality u)),
          (''preferences'', hasPreferences (dataQuality u))] \<rparr>"

datatype onboarding_response =
    OnboardingError nat string "string list"
  | OnboardingDone string onboardingStatus

text \<open>\<open>String.prototype.replace\<close> with a string pattern: the first occurrence only.\<close>

fun replace_first :: "string \<Rightarrow> string \<Rightarrow> string \<Rightarrow> string" where
  "replace_first pat rep [] = (if pat = [] then rep else [])"
| "replace_first pat rep (c # cs) =
     (if take (length pat) (c # cs) = pat then rep @ drop (length pat) (c # cs)
      else c # replace_first pat rep cs)"

text \<open>\<open>toLowerCase\<close> on the ASCII letters, which is all the section names contain.\<close>

definition lower_char :: "char \<Rightarrow> char" where
  "lower_char c =
     (let n = (of_char c :: nat) in if 65 \<le> n \<and> n \<le> 90 then char_of (n + 32) else c)"

definition toLowerCase :: "string \<Rightarrow> string" where
  "toLowerCase s = map lower_char s"

definition requiredSections :: "string list" where
  "requiredSections = [''hasBasicInfo'', ''hasLifestyle'', ''hasMedicalHistory'', ''hasGoals'']"

text \<open>
  \<open>completeOnboarding\<close> of \<open>onboardingController.js\<close> (lines 247--302). \<open>found\<close> is what
  \<open>User.findById\<close> returned, \<open>now\<close> the time and \<open>today\<close> the date part of
  \<open>new Date().toISOString()\<close>. The result is the response and the document as it is
  after the call; only the last branch saves.
\<close>

definition completeOnboarding ::
  "user option \<Rightarrow> int \<Rightarrow> string \<Rightarrow> onboarding_response \<times> user option" where
  "completeOnboarding found now today =
     (case found of
        None \<Rightarrow> (OnboardingError 404 ''User not found'' [], None)
      | Some u \<Rightarrow>
          (let incompleteSections =
                 filter (\<lambda>s. \<not> flag (dataQuality u) s) requiredSections
           in if length incompleteSections > 0
              then (OnboardingError 400
                      ''Please complete all required sections before finishing onboarding''
                      (map (\<lambda>s. toLowerCase (replace_first ''has'' [] s)) incompleteSections),
                    Some u)
              else
                (let u1 = u \<lparr> onboardingCompleted := True, onboardingStep := 6,
                              sessionInfo := (sessionInfo u)
                                \<lparr> completionTimestamp := Some now,
                                  completionDate := Some today,
                                  sectionsCompleted := int (length requiredSections) \<rparr> \<rparr>;
                     saved = pre_save u1
                 in (OnboardingDone
                       ''Onboarding completed successfully! Welcome to your fitness journey.''
                       (getOnboardingStatus saved),
                     Some saved))))"

text \<open>\<open>skipOnboarding\<close> (lines 332--364): the same without the check of the flags.\<close>

definition skipOnboarding ::
  "user option \<Rightarrow> int \<Rightarrow> string \<Rightarrow> onboarding_response \<times> user option" where
  "skipOnboarding found now today =
     (case found of
        None \<Rightarrow> (OnboardingError 404 ''User not found'' [], None)
      | Some u \<Rightarrow>
          (let u1 = u \<lparr> onboardingCompleted := True, onboardingStep := 6,
                        sessionInfo := (sessionInfo u)
                          \<lparr> completionTimestamp := Some now,
                            completionDate := Some today \<rparr> \<rparr>;
               saved = pre_save u1
           in (OnboardingDone
                 ''Onboarding skipped. You can complete your profile anytime from settings.''
                 (getOnboardingStatus saved),
               Some saved)))"

section \<open>The quantities the specification speaks of\<close>

text \<open>How many of the four required flags of a document are set.\<close>

definition completedSectionCount :: "dataQuality \<Rightarrow> nat" where
  "completedSectionCount dq =
     (if hasBasicInfo dq then 1 else 0) + (if hasLifestyle dq then 1 else 0) +
     (if hasMedicalHistory dq then 1 else 0) + (if hasGoals dq then 1 else 0)"

text \<open>The names that the completion gate reports for the required flags that are false.\<close>

definition missingSections :: "dataQuality \<Rightarrow> string list" where
  "missingSections dq =
     (if hasBasicInfo dq then [] else [''basicinfo'']) @
     (if hasLifestyle dq then [] else [''lifestyle'']) @
     (if hasMedicalHistory dq then [] else [''medicalhistory'']) @
     (if hasGoals dq then [] else [''goals''])"


text \<open>The entry that a login pushes for the refresh token it issued at a given time.\<close>

definition tokenEntry :: "jwt \<times> int \<Rightarrow> tokenObj" where
  "tokenEntry ev = \<lparr> token = fst ev, createdAt = snd ev \<rparr>"


text \<open>The options that \<open>verifyToken\<close> and the refresh flow pass to \<open>jwt.verify\<close>.\<close>

definition verifyTokenOptions :: "env \<Rightarrow> verify_options" where
  "verifyTokenOptions e =
     \<lparr> issuer = or_default (JWT_ISSUER e) ''fitness-app'',
       audience = or_default (JWT_AUDIENCE e) ''fitness-app-users'',
       algorithms = Some [''HS256''] \<rparr>"

definition refreshOptions :: verify_options where
  "refreshOptions =
     \<lparr> issuer = ''fitness-app'', audience = ''fitness-app-users'', algorithms = None \<rparr>"

text \<open>All the fields that the four required sections need are there, and truthy.\<close>

definition requiredFieldsPresent :: "user \<Rightarrow> bool" where
  "requiredFieldsPresent u =
     (truthy (getProp (basicInfo u) ''name'') \<and>
      truthy (getProp (basicInfo u) ''dateOfBirth'') \<and>
      truthy (getProp (basicInfo u) ''height'') \<and>
      truthy (getProp (basicInfo u) ''weight'') \<and>
      truthy (getProp (lifestyle u) ''wakeUpTime'') \<and>
      truthy (getProp (lifestyle u) ''sleepTime'') \<and>
      truthy (getProp (lifestyle u) ''exerciseFrequency'') \<and>
      truthy (getProp (medicalHistory u) ''gender'') \<and>
      truthy (getProp (goals u) ''primaryGoal'') \<and>
      truthy (getProp (goals u) ''targetWeight''))"

section \<open>Example data\<close>

text \<open>Request bodies that pass the route validators, one per required section.\<close>

definition example_basicInfo :: payload where
  "example_basicInfo =
     [(''name'', JStr ''Ada''), (''dateOfBirth'', JStr ''1990-01-01''),
      (''height'', JNum 170), (''weight'', JNum 65)]"

definition example_lifestyle :: payload where
  "example_lifestyle =
     [(''wakeUpTime'', JStr ''07:00''), (''sleepTime'', JStr ''23:00''),
      (''exerciseFrequency'', JStr ''3-4'')]"

definition example_medicalHistory :: payload where
  "example_medicalHistory = [(''gender'', JStr ''Femme'')]"

definition example_goals :: payload where
  "example_goals = [(''primaryGoal'', JStr ''endurance''), (''targetWeight'', JNum 60)]"

text \<open>The four required sections, filled in out of order.\<close>

definition example_updates :: "(sectionName \<times> payload \<times> int) list" where
  "example_updates =
     [(Goals, example_goals, 10), (BasicInfo, example_basicInfo, 20),
      (MedicalHistory, example_medicalHistory, 30), (Lifestyle, example_lifestyle, 40)]"

text \<open>A stored user: the document that the first save of a new user leaves.\<close>

definition example_user :: user where
  "example_user = pre_save (new_user ''u1'')"

text \<open>Seven logins in a row, and a user holding one refresh token issued at time 1000.\<close>

definition example_logins :: "(jwt \<times> int) list" where
  "example_logins =
     [(NotJwt ''r1'', 1), (NotJwt ''r2'', 2), (NotJwt ''r3'', 3), (NotJwt ''r4'', 4),
      (NotJwt ''r5'', 5), (NotJwt ''r6'', 6), (NotJwt ''r7'', 7)]"

definition example_tokens_user :: user where
  "example_tokens_user =
     example_user \<lparr> refreshTokens := [\<lparr> token = NotJwt ''r1'', createdAt = 1000 \<rparr>] \<rparr>"


text \<open>A configuration without overrides, and tokens issued under it that expire at second 2000.\<close>

definition example_env :: env where
  "example_env = \<lparr> JWT_SECRET = ''s3cret'', JWT_ISSUER = None, JWT_AUDIENCE = None,
     JWT_EXPIRES_IN = None \<rparr>"

definition example_claims :: "string \<Rightarrow> jwt_payload" where
  "example_claims ty =
     \<lparr> userId = ''u1'', tokenType = Some ty, jti = Some ''id-1'',
       iss = Some ''fitness-app'', aud = Some ''fitness-app-users'', sub = Some ''u1'',
       nbf = None, expiry = Some 2000 \<rparr>"

definition example_access :: jwt where
  "example_access = Jwt ''HS256'' ''s3cret'' (example_claims ''access'')"

definition example_refresh :: jwt where
  "example_refresh = Jwt ''HS256'' ''s3cret'' (example_claims ''refresh'')"

text \<open>
  The same refresh claims signed with the configured secret under \<open>HS512\<close>, a forged
  token signed with another key, and a user whose stored token is the \<open>HS512\<close> one.
\<close>

definition example_hs512_refresh :: jwt where
  "example_hs512_refresh = Jwt ''HS512'' ''s3cret'' (example_claims ''refresh'')"

definition example_forged_refresh :: jwt where
  "example_forged_refresh = Jwt ''HS256'' ''other'' (example_claims ''refresh'')"

definition example_hs512_user :: user where
  "example_hs512_user =
     example_user
       \<lparr> refreshTokens := [\<lparr> token = example_hs512_refresh, createdAt = 1000 \<rparr>] \<rparr>"

definition example_session_user :: user where
  "example_session_user =
     example_user \<lparr> refreshTokens := [\<lparr> token = example_refresh, createdAt = 1000 \<rparr>] \<rparr>"


text \<open>The document that \<open>skipOnboarding\<close> leaves for the stored new user.\<close>

definition example_skipped :: user where
  "example_skipped =
     pre_save (example_user \<lparr> onboardingCompleted := True, onboardingStep := 6,
       sessionInfo := (sessionInfo example_user)
         \<lparr> completionTimestamp := Some 1000, completionDate := Some ''2024-01-15'' \<rparr> \<rparr>)"

text \<open>A user who has filled in every required section but lifestyle.\<close>

definition example_missing_lifestyle :: user where
  "example_missing_lifestyle = updateSections example_user (take 3 example_updates)"

section \<open>Completeness after a save\<close>

lemma filter_flag_count:
  "length (filter (flag dq) sections) = completedSectionCount dq"
  by (simp add: sections_def flag_def completedSectionCount_def)

lemma floor_half_rat: "\<lfloor>1 / 2 :: rat\<rfloor> = 0"
  by (simp add: floor_eq_iff)

lemma round_quarters:
  assumes "n \<le> 4"
  shows "round ((rat_of_nat n / rat_of_nat 4) * 100) = 25 * int n"
proof -
  from assms have "n = 0 \<or> n = 1 \<or> n = 2 \<or> n = 3 \<or> n = 4" by arith
  then show ?thesis by (auto simp: round_def floor_half_rat)
qed

lemma completedSectionCount_le: "completedSectionCount dq \<le> 4"
  by (simp add: completedSectionCount_def)

lemma length_sections: "length sections = 4"
  by (simp add: sections_def)

lemma count_ignores_score:
  "completedSectionCount (dq \<lparr> completenessScore := x \<rparr>) = completedSectionCount dq"
  by (simp add: completedSectionCount_def)

lemma pre_save_round:
  "profileCompleteness (pre_save u) =
     round ((rat_of_nat (completedSectionCount (dataQuality (pre_save u))) / rat_of_nat 4) * 100)"
  by (simp add: pre_save_def Let_def filter_flag_count length_sections count_ignores_score)

lemma pre_save_profileCompleteness:
  "profileCompleteness (pre_save u) =
     25 * int (completedSectionCount (dataQuality (pre_save u)))"
  by (simp only: pre_save_round round_quarters[OF completedSectionCount_le])

lemma round_of_count:
  "n \<le> 4 \<Longrightarrow> round (100 * rat_of_nat n / 4) = 25 * int n"
  using round_quarters[of n] by (simp add: field_simps)

lemma pre_save_sections:
  "basicInfo (pre_save u) = basicInfo u" "lifestyle (pre_save u) = lifestyle u"
  "medicalHistory (pre_save u) = medicalHistory u" "goals (pre_save u) = goals u"
  "preferences (pre_save u) = preferences u" "labResults (pre_save u) = labResults u"
  "refreshTokens (pre_save u) = refreshTokens u" "sessionInfo (pre_save u) = sessionInfo u"
  "lastLoginAt (pre_save u) = lastLoginAt u" "uid (pre_save u) = uid u"
  by (simp_all add: pre_save_def Let_def)

lemma pre_save_flags:
  "hasBasicInfo (dataQuality (pre_save u)) =
     (truthy (getProp (basicInfo u) ''name'') \<and>
      truthy (getProp (basicInfo u) ''dateOfBirth'') \<and>
      truthy (getProp (basicInfo u) ''height'') \<and>
      truthy (getProp (basicInfo u) ''weight''))"
  "hasLifestyle (dataQuality (pre_save u)) =
     (truthy (getProp (lifestyle u) ''wakeUpTime'') \<and>
      truthy (getProp (lifestyle u) ''sleepTime'') \<and>
      truthy (getProp (lifestyle u) ''exerciseFrequency''))"
  "hasMedicalHistory (dataQuality (pre_save u)) =
     truthy (getProp (medicalHistory u) ''gender'')"
  "hasGoals (dataQuality (pre_save u)) =
     (truthy (getProp (goals u) ''primaryGoal'') \<and>
      truthy (getProp (goals u) ''targetWeight''))"
  "hasPreferences (dataQuality (pre_save u)) = hasPreferences (dataQuality u)"
  by (simp_all add: pre_save_def Let_def)

text \<open>
  Claim C1. After a save, \<open>profileCompleteness\<close> is
  \<open>round (100 \<times> completedSections / 4)\<close>, where \<open>completedSections\<close> counts the flags
  \<open>hasBasicInfo\<close>, \<open>hasLifestyle\<close>, \<open>hasMedicalHistory\<close> and \<open>hasGoals\<close> of the saved
  document; the preferences section and its flag have no influence on the value.
\<close>

theorem profileCompleteness_after_save:
  "profileCompleteness (pre_save u) =
     round (100 * rat_of_nat (completedSectionCount (dataQuality (pre_save u))) / 4) \<and>
   profileCompleteness
     (pre_save (u \<lparr> preferences := p,
                    dataQuality := (dataQuality u) \<lparr> hasPreferences := b \<rparr> \<rparr>)) =
   profileCompleteness (pre_save u)"
proof
  show "profileCompleteness (pre_save u) =
     round (100 * rat_of_nat (completedSectionCount (dataQuality (pre_save u))) / 4)"
    by (simp only: round_of_count[OF completedSectionCount_le] pre_save_profileCompleteness)
next
  show "profileCompleteness
     (pre_save (u \<lparr> preferences := p,
                    dataQuality := (dataQuality u) \<lparr> hasPreferences := b \<rparr> \<rparr>)) =
   profileCompleteness (pre_save u)"
    by (simp add: pre_save_profileCompleteness completedSectionCount_def pre_save_flags)
qed

section \<open>Section updates and the onboarding step\<close>

lemma update_keeps_completed:
  "onboardingCompleted (updateOnboardingSection u s d t) = onboardingCompleted u"
  by (cases s) (simp_all add: updateOnboardingSection_def Let_def)

lemma update_step:
  "onboardingStep (updateOnboardingSection u s d t) =
     (case stepMapping s of
        Some n \<Rightarrow> max (onboardingStep u) n
      | None \<Rightarrow> onboardingStep u)"
  by (cases s) (simp_all add: updateOnboardingSection_def Let_def)

lemma stepMapping_range: "stepMapping s = Some n \<Longrightarrow> 1 \<le> n \<and> n \<le> 5"
  by (cases s) auto

lemma pre_save_completed:
  "onboardingCompleted (pre_save u) =
     (onboardingCompleted u \<or> profileCompleteness (pre_save u) = 100)"
  by (auto simp: pre_save_def Let_def)

lemma pre_save_step:
  "onboardingStep (pre_save u) =
     (if profileCompleteness (pre_save u) = 100 \<and> \<not> onboardingCompleted u then 6
      else onboardingStep u)"
  by (simp add: pre_save_def Let_def)

lemma updateSection_completed:
  "onboardingCompleted (updateSection u s d t) =
     (onboardingCompleted u \<or> profileCompleteness (updateSection u s d t) = 100)"
  by (simp add: updateSection_def pre_save_completed update_keeps_completed)

lemma updateSection_step:
  "onboardingStep (updateSection u s d t) =
     (if profileCompleteness (updateSection u s d t) = 100 \<and> \<not> onboardingCompleted u then 6
      else case stepMapping s of
             Some n \<Rightarrow> max (onboardingStep u) n
           | None \<Rightarrow> onboardingStep u)"
  by (simp add: updateSection_def pre_save_step update_keeps_completed update_step)

lemma completed_at_step_six:
  assumes "onboardingCompleted u \<longrightarrow> onboardingStep u = 6"
  shows "onboardingCompleted (updateSection u s d t) \<longrightarrow>
         onboardingStep (updateSection u s d t) = 6"
  using assms stepMapping_range[of s]
  by (auto simp: updateSection_completed updateSection_step split: option.splits)

lemma completed_at_step_six_seq:
  "onboardingCompleted u \<longrightarrow> onboardingStep u = 6 \<Longrightarrow>
   onboardingCompleted (updateSections u ops) \<longrightarrow> onboardingStep (updateSections u ops) = 6"
proof (induction ops arbitrary: u)
  case Nil
  then show ?case by simp
next
  case (Cons x ops)
  obtain s d t where x: "x = (s, d, t)" by (cases x)
  show ?case
    using Cons.IH[OF completed_at_step_six[OF Cons.prems, of s d t]] by (simp add: x)
qed

lemma updateSections_snoc:
  "updateSections u (ops @ [(s, d, t)]) = updateSection (updateSections u ops) s d t"
  by (induction ops arbitrary: u) auto

lemma updateSections_last:
  assumes "ops \<noteq> []"
  obtains ops' s d t where "updateSections u ops = updateSection (updateSections u ops') s d t"
proof -
  from assms obtain ops' x where "ops = ops' @ [x]" by (meson rev_exhaust)
  moreover obtain s d t where "x = (s, d, t)" by (cases x)
  ultimately have "updateSections u ops = updateSection (updateSections u ops') s d t"
    by (simp add: updateSections_snoc)
  then show ?thesis by (rule that)
qed

lemma full_profile_100:
  "requiredFieldsPresent u \<Longrightarrow> profileCompleteness (pre_save u) = 100"
  by (simp add: pre_save_profileCompleteness completedSectionCount_def pre_save_flags
      requiredFieldsPresent_def)

lemma requiredFieldsPresent_pre_save:
  "requiredFieldsPresent (pre_save u) = requiredFieldsPresent u"
  by (simp add: requiredFieldsPresent_def pre_save_sections)

text \<open>
  Claim C2. For a user whose \<open>onboardingCompleted\<close> is false: if the completeness that a
  section update recomputes is 100, the update leaves \<open>onboardingCompleted\<close> true and
  \<open>onboardingStep\<close> 6, with no call of \<open>completeOnboarding\<close>. The same holds at the end
  of any non-empty sequence of section updates, in whatever order the sections were
  written: once the completeness is 100, and in particular once all required fields of
  the four required sections are there, onboarding is completed at step 6.
\<close>

theorem auto_completion_at_100:
  assumes "\<not> onboardingCompleted u"
  shows "(profileCompleteness (updateSection u s d t) = 100 \<longrightarrow>
            onboardingCompleted (updateSection u s d t) \<and>
            onboardingStep (updateSection u s d t) = 6) \<and>
         (ops \<noteq> [] \<and> profileCompleteness (updateSections u ops) = 100 \<longrightarrow>
            onboardingCompleted (updateSections u ops) \<and>
            onboardingStep (updateSections u ops) = 6) \<and>
         (ops \<noteq> [] \<and> requiredFieldsPresent (updateSections u ops) \<longrightarrow>
            onboardingCompleted (updateSections u ops) \<and>
            onboardingStep (updateSections u ops) = 6)"
proof -
  have one: "profileCompleteness (updateSection u s d t) = 100 \<longrightarrow>
            onboardingCompleted (updateSection u s d t) \<and>
            onboardingStep (updateSection u s d t) = 6"
    using assms by (simp add: updateSection_completed updateSection_step)
  have inv: "onboardingCompleted (updateSections u ops) \<longrightarrow>
             onboardingStep (updateSections u ops) = 6"
    using assms by (intro completed_at_step_six_seq) simp
  have last100: "onboardingCompleted (updateSections u ops)"
    if ne: "ops \<noteq> []" and pc: "profileCompleteness (updateSections u ops) = 100"
  proof -
    from ne obtain ops' s' d' t'
      where eq: "updateSections u ops = updateSection (updateSections u ops') s' d' t'"
      by (rule updateSections_last)
    show ?thesis using pc unfolding eq by (subst updateSection_completed) simp
  qed
  have full: "profileCompleteness (updateSections u ops) = 100"
    if ne: "ops \<noteq> []" and rf: "requiredFieldsPresent (updateSections u ops)"
  proof -
    from ne obtain ops' s' d' t'
      where eq: "updateSections u ops = updateSection (updateSections u ops') s' d' t'"
      by (rule updateSections_last)
    show ?thesis using rf unfolding eq updateSection_def
      by (simp add: requiredFieldsPresent_pre_save full_profile_100)
  qed
  show ?thesis using one inv last100 full by blast
qed

theorem auto_completion_at_100_witness:
  "\<not> onboardingCompleted example_missing_lifestyle \<and>
   profileCompleteness example_missing_lifestyle = 75 \<and>
   profileCompleteness
     (updateSection example_missing_lifestyle Lifestyle example_lifestyle 40) = 100 \<and>
   requiredFieldsPresent
     (updateSections example_missing_lifestyle [(Lifestyle, example_lifestyle, 40)]) \<and>
   onboardingCompleted
     (updateSection example_missing_lifestyle Lifestyle example_lifestyle 40) \<and>
   onboardingStep
     (updateSection example_missing_lifestyle Lifestyle example_lifestyle 40) = 6 \<and>
   onboardingCompleted
     (updateSections example_missing_lifestyle [(Lifestyle, example_lifestyle, 40)]) \<and>
   onboardingStep
     (updateSections example_missing_lifestyle [(Lifestyle, example_lifestyle, 40)]) = 6"
proof -
  have a: "\<not> onboardingCompleted example_missing_lifestyle"
    by code_simp
  have b: "profileCompleteness
     (updateSection example_missing_lifestyle Lifestyle example_lifestyle 40) = 100"
    by code_simp
  have c: "requiredFieldsPresent
     (updateSections example_missing_lifestyle [(Lifestyle, example_lifestyle, 40)])"
    by code_simp
  have d: "profileCompleteness example_missing_lifestyle = 75"
    by code_simp
  have e: "[(Lifestyle, example_lifestyle, 40)] \<noteq> []"
    by simp
  from auto_completion_at_100[OF a, where s = Lifestyle and d = example_lifestyle and t = 40
      and ops = "[(Lifestyle, example_lifestyle, 40)]"] b c e
  have "onboardingCompleted
     (updateSection example_missing_lifestyle Lifestyle example_lifestyle 40)"
    "onboardingStep
     (updateSection example_missing_lifestyle Lifestyle example_lifestyle 40) = 6"
    "onboardingCompleted
     (updateSections example_missing_lifestyle [(Lifestyle, example_lifestyle, 40)])"
    "onboardingStep
     (updateSections example_missing_lifestyle [(Lifestyle, example_lifestyle, 40)]) = 6"
    by blast+
  with a b c d show ?thesis by (intro conjI)
qed

lemma updateSection_step_bounds:
  assumes "onboardingStep u \<le> 6"
  shows "onboardingStep u \<le> onboardingStep (updateSection u s d t) \<and>
         onboardingStep (updateSection u s d t) \<le> 6"
  using assms stepMapping_range[of s]
  by (auto simp: updateSection_step split: option.splits)

lemma updateSection_completed_mono:
  "onboardingCompleted u \<Longrightarrow> onboardingCompleted (updateSection u s d t)"
  by (simp add: updateSection_completed)

lemma updateTrace_bounds:
  "onboardingStep u \<le> 6 \<Longrightarrow> y \<in> set (updateTrace u ops) \<Longrightarrow>
   onboardingStep u \<le> onboardingStep y \<and> (onboardingCompleted u \<longrightarrow> onboardingCompleted y)"
proof (induction ops arbitrary: u)
  case Nil
  then show ?case by simp
next
  case (Cons x ops)
  obtain s d t where x: "x = (s, d, t)" by (cases x)
  from Cons.prems(2) consider "y = u" | "y \<in> set (updateTrace (updateSection u s d t) ops)"
    by (auto simp: x)
  then show ?case
  proof cases
    case 1
    then show ?thesis by simp
  next
    case 2
    have b: "onboardingStep u \<le> onboardingStep (updateSection u s d t)"
        "onboardingStep (updateSection u s d t) \<le> 6"
      using updateSection_step_bounds[OF Cons.prems(1), of s d t] by simp_all
    from Cons.IH[OF b(2) 2] b(1) updateSection_completed_mono[of u s d t]
    show ?thesis by auto
  qed
qed

lemma updateTrace_sorted:
  "onboardingStep u \<le> 6 \<Longrightarrow>
   sorted (map onboardingStep (updateTrace u ops)) \<and>
   sorted_wrt (\<lambda>a b. onboardingCompleted a \<longrightarrow> onboardingCompleted b) (updateTrace u ops)"
proof (induction ops arbitrary: u)
  case Nil
  then show ?case by simp
next
  case (Cons x ops)
  obtain s d t where x: "x = (s, d, t)" by (cases x)
  have b: "onboardingStep u \<le> onboardingStep (updateSection u s d t)"
      "onboardingStep (updateSection u s d t) \<le> 6"
    using updateSection_step_bounds[OF Cons.prems(1), of s d t] by simp_all
  have m: "\<And>y. y \<in> set (updateTrace (updateSection u s d t) ops) \<Longrightarrow>
      onboardingStep u \<le> onboardingStep y \<and> (onboardingCompleted u \<longrightarrow> onboardingCompleted y)"
    using updateTrace_bounds[OF b(2)] b(1) updateSection_completed_mono[of u s d t] by fastforce
  show ?case using Cons.IH[OF b(2)] m by (auto simp: x)
qed

text \<open>
  The range of the step: a new document starts at 0, and a save, a section update, the
  completion and the skip all keep the step at 6 or below.
\<close>

lemma step_range:
  "onboardingStep (new_user i) \<le> 6"
  "onboardingStep u \<le> 6 \<Longrightarrow> onboardingStep (pre_save u) \<le> 6"
  "onboardingStep u \<le> 6 \<Longrightarrow> onboardingStep (updateSection u s d t) \<le> 6"
  "onboardingStep u \<le> 6 \<Longrightarrow> onboardingStep (loginDocument u rt t) \<le> 6"
  "completeOnboarding (Some u) t today = (r, Some u') \<Longrightarrow> onboardingStep u \<le> 6 \<Longrightarrow>
     onboardingStep u' \<le> 6"
  "skipOnboarding (Some u) t today = (r, Some u') \<Longrightarrow> onboardingStep u' \<le> 6"
proof -
  show "onboardingStep (new_user i) \<le> 6"
    by (simp add: new_user_def)
  show "onboardingStep u \<le> 6 \<Longrightarrow> onboardingStep (pre_save u) \<le> 6"
    by (simp add: pre_save_step)
  show "onboardingStep u \<le> 6 \<Longrightarrow> onboardingStep (updateSection u s d t) \<le> 6"
    using updateSection_step_bounds[of u s d t] by simp
  show "onboardingStep u \<le> 6 \<Longrightarrow> onboardingStep (loginDocument u rt t) \<le> 6"
    by (simp add: loginDocument_def Let_def pre_save_step)
  show "completeOnboarding (Some u) t today = (r, Some u') \<Longrightarrow> onboardingStep u \<le> 6 \<Longrightarrow>
     onboardingStep u' \<le> 6"
    by (auto simp: completeOnboarding_def Let_def pre_save_step split: if_splits)
  show "skipOnboarding (Some u) t today = (r, Some u') \<Longrightarrow> onboardingStep u' \<le> 6"
    by (auto simp: skipOnboarding_def Let_def pre_save_step)
qed

text \<open>
  Claim C3. Along any sequence of section updates on one user whose step is in the
  documented range (at most 6), \<open>onboardingStep\<close> never decreases and
  \<open>onboardingCompleted\<close> never goes from true to false. Writing section \<open>S\<close> with
  \<open>updateOnboardingSection\<close> sets the step to \<open>max(step, stepNumber(S))\<close>, where
  basicInfo is 1, lifestyle 2, medicalHistory 3, goals 4 and preferences 5.
\<close>

theorem onboardingStep_monotone:
  assumes "onboardingStep u \<le> 6"
  shows "sorted (map onboardingStep (updateTrace u ops)) \<and>
         sorted_wrt (\<lambda>a b. onboardingCompleted a \<longrightarrow> onboardingCompleted b)
           (updateTrace u ops) \<and>
         onboardingStep (updateOnboardingSection u s d t) =
           (case stepMapping s of
              Some n \<Rightarrow> max (onboardingStep u) n
            | None \<Rightarrow> onboardingStep u) \<and>
         map stepMapping [BasicInfo, Lifestyle, MedicalHistory, Goals, Preferences] =
           [Some 1, Some 2, Some 3, Some 4, Some 5]"
  using updateTrace_sorted[OF assms, of ops] by (simp add: update_step)

theorem onboardingStep_monotone_witness:
  "onboardingStep example_user \<le> 6 \<and>
   map onboardingStep (updateTrace example_user example_updates) = [0, 4, 4, 4, 6] \<and>
   map onboardingCompleted (updateTrace example_user example_updates) =
     [False, False, False, False, True] \<and>
   sorted (map onboardingStep (updateTrace example_user example_updates))"
proof -
  have a: "onboardingStep example_user \<le> 6" by code_simp
  have b: "map onboardingStep (updateTrace example_user example_updates) = [0, 4, 4, 4, 6]"
    by code_simp
  have c: "map onboardingCompleted (updateTrace example_user example_updates) =
     [False, False, False, False, True]"
    by code_simp
  show ?thesis using a b c onboardingStep_monotone[OF a, of example_updates] by simp
qed

section \<open>The empty update\<close>

lemma pre_save_score:
  "completenessScore (dataQuality (pre_save u)) =
     template_int (profileCompleteness (pre_save u)) @ ''%''"
  by (simp add: pre_save_def Let_def)

lemma pre_save_fixed:
  assumes f1: "hasBasicInfo (dataQuality v) =
       (truthy (getProp (basicInfo v) ''name'') \<and>
        truthy (getProp (basicInfo v) ''dateOfBirth'') \<and>
        truthy (getProp (basicInfo v) ''height'') \<and>
        truthy (getProp (basicInfo v) ''weight''))"
    and f2: "hasLifestyle (dataQuality v) =
       (truthy (getProp (lifestyle v) ''wakeUpTime'') \<and>
        truthy (getProp (lifestyle v) ''sleepTime'') \<and>
        truthy (getProp (lifestyle v) ''exerciseFrequency''))"
    and f3: "hasMedicalHistory (dataQuality v) = truthy (getProp (medicalHistory v) ''gender'')"
    and f4: "hasGoals (dataQuality v) =
       (truthy (getProp (goals v) ''primaryGoal'') \<and>
        truthy (getProp (goals v) ''targetWeight''))"
    and pc: "profileCompleteness v = 25 * int (completedSectionCount (dataQuality v))"
    and sc: "completenessScore (dataQuality v) = template_int (profileCompleteness v) @ ''%''"
    and fin: "profileCompleteness v = 100 \<longrightarrow> onboardingCompleted v"
  shows "pre_save v = v"
proof -
  have dq1: "(dataQuality v)
            \<lparr> hasBasicInfo :=
                (truthy (getProp (basicInfo v) ''name'') \<and>
                 truthy (getProp (basicInfo v) ''dateOfBirth'') \<and>
                 truthy (getProp (basicInfo v) ''height'') \<and>
                 truthy (getProp (basicInfo v) ''weight'')),
              hasLifestyle :=
                (truthy (getProp (lifestyle v) ''wakeUpTime'') \<and>
                 truthy (getProp (lifestyle v) ''sleepTime'') \<and>
                 truthy (getProp (lifestyle v) ''exerciseFrequency'')),
              hasMedicalHistory := truthy (getProp (medicalHistory v) ''gender''),
              hasGoals :=
                (truthy (getProp (goals v) ''primaryGoal'') \<and>
                 truthy (getProp (goals v) ''targetWeight'')) \<rparr> = dataQuality v"
    by (simp only: f1[symmetric] f2[symmetric] f3[symmetric] f4[symmetric]) simp
  have rd: "round ((rat_of_nat (length (filter (flag (dataQuality v)) sections)) /
                   rat_of_nat (length sections)) * 100) = profileCompleteness v"
    by (simp only: filter_flag_count length_sections round_quarters[OF completedSectionCount_le] pc)
  have sc': "(dataQuality v) \<lparr> completenessScore := template_int (profileCompleteness v) @ ''%'' \<rparr>
      = dataQuality v"
    by (simp only: sc[symmetric]) simp
  show ?thesis
    unfolding pre_save_def Let_def dq1 rd sc' using fin by auto
qed

lemma touch_basicInfo:
  "k \<noteq> ''completedAt'' \<Longrightarrow> getProp (d(''completedAt'' \<mapsto> x)) k = getProp d k"
  by (simp add: getProp_def)

lemma update_empty_basicInfo:
  "updateOnboardingSection u BasicInfo [] now =
     u \<lparr> basicInfo := (basicInfo u)(''completedAt'' \<mapsto> JDate now),
         onboardingStep := max (onboardingStep u) 1 \<rparr>"
  by (simp add: updateOnboardingSection_def Let_def max_def)

text \<open>
  Claim C10, as amended. On a stored user (a document as a save leaves it),
  \<open>updateSection('basicInfo', {})\<close> changes nothing but two fields:
  \<open>basicInfo.completedAt\<close> becomes the current time, and \<open>onboardingStep\<close> becomes
  \<open>max(step, 1)\<close>, so it moves from 0 to 1 and stays as it is otherwise. In particular
  \<open>profileCompleteness\<close> and every other field of \<open>basicInfo\<close> keep their values.
\<close>

theorem empty_basicInfo_update:
  assumes "u = pre_save u0"
  shows "updateSection u BasicInfo [] now =
           u \<lparr> basicInfo := (basicInfo u)(''completedAt'' \<mapsto> JDate now),
               onboardingStep := max (onboardingStep u) 1 \<rparr> \<and>
         profileCompleteness (updateSection u BasicInfo [] now) = profileCompleteness u \<and>
         (basicInfo (updateSection u BasicInfo [] now))(''completedAt'' := None) =
           (basicInfo u)(''completedAt'' := None)"
proof -
  let ?v = "u \<lparr> basicInfo := (basicInfo u)(''completedAt'' \<mapsto> JDate now),
               onboardingStep := max (onboardingStep u) 1 \<rparr>"
  have "pre_save ?v = ?v"
  proof (rule pre_save_fixed)
    show "profileCompleteness ?v = 100 \<longrightarrow> onboardingCompleted ?v"
      by (simp add: assms pre_save_completed)
  qed (simp_all add: assms pre_save_flags pre_save_sections pre_save_profileCompleteness
        pre_save_score touch_basicInfo)
  then have eq: "updateSection u BasicInfo [] now = ?v"
    by (simp only: updateSection_def update_empty_basicInfo)
  show ?thesis by (simp add: eq)
qed

theorem empty_basicInfo_update_witness:
  "updateSection example_user Goals example_goals 10 =
     pre_save (updateOnboardingSection example_user Goals example_goals 10) \<and>
   onboardingStep (updateSection example_user Goals example_goals 10) = 4 \<and>
   onboardingStep
     (updateSection (updateSection example_user Goals example_goals 10) BasicInfo [] 50) = 4 \<and>
   profileCompleteness (updateSection example_user Goals example_goals 10) = 25 \<and>
   profileCompleteness
     (updateSection (updateSection example_user Goals example_goals 10) BasicInfo [] 50) = 25"
proof -
  have a: "updateSection example_user Goals example_goals 10 =
     pre_save (updateOnboardingSection example_user Goals example_goals 10)"
    by (simp add: updateSection_def)
  have b: "onboardingStep (updateSection example_user Goals example_goals 10) = 4"
    by code_simp
  have c: "profileCompleteness (updateSection example_user Goals example_goals 10) = 25"
    by code_simp
  note t = empty_basicInfo_update[OF a, of 50]
  have d: "onboardingStep
     (updateSection (updateSection example_user Goals example_goals 10) BasicInfo [] 50) = 4"
    by (simp add: t b)
  have e: "profileCompleteness
     (updateSection (updateSection example_user Goals example_goals 10) BasicInfo [] 50) = 25"
    using t c by simp
  show ?thesis using a b c d e by (intro conjI)
qed

text \<open>
  The claim as it was stated fails on a user who has not touched any section: the empty
  update moves the step from 0 to 1.
\<close>

theorem empty_basicInfo_update_counterexample:
  "onboardingStep example_user = 0 \<and>
   onboardingStep (updateSection example_user BasicInfo [] 1000) = 1"
  by code_simp

section \<open>The preferences flag\<close>

lemma hasPreferences_never_written:
  "hasPreferences (dataQuality (updateSection u s d t)) = hasPreferences (dataQuality u)"
  by (cases s) (simp_all add: updateSection_def pre_save_flags updateOnboardingSection_def Let_def)

text \<open>
  Claim C9 at a concrete input: a stored user writes the preferences section; after the
  save the section holds the value and \<open>hasPreferences\<close> is still false.
\<close>

theorem preferences_flag_evaluation:
  "preferences (updateSection example_user Preferences
       [(''workoutDuration'', JStr ''30'')] 1000) ''workoutDuration'' = Some (JStr ''30'') \<and>
   hasPreferences (dataQuality (updateSection example_user Preferences
       [(''workoutDuration'', JStr ''30'')] 1000)) = False"
  by code_simp

section \<open>Refresh tokens\<close>

lemma isValidRefreshToken_set:
  "isValidRefreshToken u tok now =
     (\<exists>e \<in> set (refreshTokens u). token e = tok \<and> now < createdAt e + 604800000)"
  by (simp add: isValidRefreshToken_def list_ex_iff)

text \<open>
  Claim C6. \<open>isValidRefreshToken(token)\<close> is true exactly when some entry of the user's
  \<open>refreshTokens\<close> has that token value and the current time is earlier than the entry's
  \<open>createdAt\<close> plus 7 days. In particular a token whose entries were all created 8 days
  ago is rejected, whether or not it is still in the sequence. (Times are milliseconds
  within the range in which \<open>Date\<close> arithmetic is exact.)
\<close>

theorem isValidRefreshToken_iff:
  "isValidRefreshToken u tok now =
     (\<exists>e \<in> set (refreshTokens u).
        token e = tok \<and> now < createdAt e + 7 * 24 * 60 * 60 * 1000) \<and>
   ((\<forall>e \<in> set (refreshTokens u). token e = tok \<longrightarrow> createdAt e = now - 8 * 24 * 60 * 60 * 1000)
      \<longrightarrow> \<not> isValidRefreshToken u tok now)"
  by (auto simp: isValidRefreshToken_set)

theorem isValidRefreshToken_iff_witness:
  "list_ex (\<lambda>e. token e = NotJwt ''r1'') (refreshTokens example_tokens_user) \<and>
   list_all (\<lambda>e. token e = NotJwt ''r1'' \<longrightarrow> createdAt e = 691201000 - 8 * 24 * 60 * 60 * 1000)
     (refreshTokens example_tokens_user) \<and>
   \<not> isValidRefreshToken example_tokens_user (NotJwt ''r1'') 691201000 \<and>
   isValidRefreshToken example_tokens_user (NotJwt ''r1'') 2000"
proof -
  have a: "\<forall>e \<in> set (refreshTokens example_tokens_user).
      token e = NotJwt ''r1'' \<longrightarrow> createdAt e = 691201000 - 8 * 24 * 60 * 60 * 1000"
    by (simp add: example_tokens_user_def)
  have b: "isValidRefreshToken example_tokens_user (NotJwt ''r1'') 2000"
    by (simp add: example_tokens_user_def isValidRefreshToken_def)
  from isValidRefreshToken_iff[of example_tokens_user "NotJwt ''r1''" 691201000] a
  have c: "\<not> isValidRefreshToken example_tokens_user (NotJwt ''r1'') 691201000" by blast
  show ?thesis using a b c by (simp add: example_tokens_user_def list_all_iff)
qed

lemma keep_append:
  "drop (length (drop (length xs - n) xs @ ys) - n) (drop (length xs - n) xs @ ys) =
   drop (length (xs @ ys) - n) (xs @ ys)"
proof (cases "length xs \<le> n")
  case True
  then show ?thesis by simp
next
  case False
  then have a: "length ys + (length xs - n) = length xs + length ys - n"
    and b: "length xs + length ys - n - length xs = length ys - n"
    and c: "length xs - (length xs - n) = n"
    by arith+
  show ?thesis using False by (simp add: drop_append a b c)
qed

lemma loginDocument_tokens:
  "refreshTokens (loginDocument u rt now) =
     drop (length (refreshTokens u @ [tokenEntry (rt, now)]) - 5)
       (refreshTokens u @ [tokenEntry (rt, now)])"
  by (auto simp: loginDocument_def Let_def pre_save_sections tokenEntry_def)

lemma logins_tokens:
  "refreshTokens (logins (loginDocument u rt now) evs) =
     drop (length (refreshTokens u @ tokenEntry (rt, now) # map tokenEntry evs) - 5)
       (refreshTokens u @ tokenEntry (rt, now) # map tokenEntry evs)"
proof (induction evs arbitrary: u rt now)
  case Nil
  then show ?case by (simp add: loginDocument_tokens)
next
  case (Cons ev evs)
  obtain rt' now' where ev: "ev = (rt', now')" by (cases ev)
  let ?A = "refreshTokens u @ [tokenEntry (rt, now)]"
  let ?M = "tokenEntry (rt', now') # map tokenEntry evs"
  have "refreshTokens (logins (loginDocument u rt now) (ev # evs)) =
        refreshTokens (logins (loginDocument (loginDocument u rt now) rt' now') evs)"
    by (simp add: ev)
  also have "\<dots> = drop (length (refreshTokens (loginDocument u rt now) @ ?M) - 5)
                    (refreshTokens (loginDocument u rt now) @ ?M)"
    by (rule Cons.IH)
  also have "\<dots> = drop (length (?A @ ?M) - 5) (?A @ ?M)"
    unfolding loginDocument_tokens by (rule keep_append)
  finally show ?case by (simp add: ev)
qed

text \<open>
  Claim C7. After \<open>N > 5\<close> successful logins of one user, whatever the sequence held
  before, \<open>refreshTokens\<close> has exactly 5 entries, and they are the entries of the 5 most
  recent logins, in order.
\<close>

theorem login_keeps_last_five:
  assumes "5 < length evs"
  shows "length (refreshTokens (logins u evs)) = 5 \<and>
         refreshTokens (logins u evs) = map tokenEntry (drop (length evs - 5) evs)"
proof -
  from assms obtain ev evs' where evs: "evs = ev # evs'" by (cases evs) auto
  obtain rt now where ev: "ev = (rt, now)" by (cases ev)
  have "refreshTokens (logins u evs) =
      drop (length (refreshTokens u @ map tokenEntry evs) - 5)
        (refreshTokens u @ map tokenEntry evs)"
    by (simp add: evs ev logins_tokens)
  also have "\<dots> = map tokenEntry (drop (length evs - 5) evs)"
    using assms by (simp add: drop_map)
  finally show ?thesis using assms by simp
qed

theorem login_keeps_last_five_witness:
  "5 < length example_logins \<and>
   map token (refreshTokens (logins example_user example_logins)) =
     [NotJwt ''r3'', NotJwt ''r4'', NotJwt ''r5'', NotJwt ''r6'', NotJwt ''r7'']"
proof -
  have a: "5 < length example_logins" by (simp add: example_logins_def)
  show ?thesis
    using a login_keeps_last_five[OF a, of example_user]
    by (simp add: example_logins_def tokenEntry_def)
qed

lemma login_success:
  "findByEmail email = Some u \<Longrightarrow> comparePassword u password \<Longrightarrow>
   login findByEmail comparePassword e email password acc rt now =
     (LoginJson (uid u) acc rt (or_default (JWT_EXPIRES_IN e) ''7d''),
      Some (loginDocument u rt now))"
  by (simp add: login_def)

section \<open>Token verification\<close>

lemma jwt_verify_ref_spec: "jwt_verify_spec jwt_verify_ref"
  unfolding jwt_verify_spec_def
proof (intro allI)
  fix tok secret opts now
  show "case jwt_verify_ref tok secret opts now of
          Inl (JsonWebTokenError m) \<Rightarrow>
            \<not> signature_ok tok secret opts \<or>
            (\<exists>d. claims_of tok = Some d \<and> (\<not> issuer_ok d opts \<or> \<not> audience_ok d opts))
        | Inl TokenExpiredError \<Rightarrow>
            signature_ok tok secret opts \<and> (\<exists>d. claims_of tok = Some d \<and> is_expired d now)
        | Inl NotBeforeError \<Rightarrow>
            signature_ok tok secret opts \<and> (\<exists>d. claims_of tok = Some d \<and> not_yet_valid d now)
        | Inr d \<Rightarrow>
            signature_ok tok secret opts \<and> claims_of tok = Some d \<and>
            \<not> is_expired d now \<and> \<not> not_yet_valid d now \<and>
            issuer_ok d opts \<and> audience_ok d opts"
    by (cases tok) simp_all
qed

lemma spec_cases:
  assumes "jwt_verify_spec jv"
  shows "jv tok secret opts now = Inr d \<Longrightarrow>
           signature_ok tok secret opts \<and> claims_of tok = Some d \<and>
           \<not> is_expired d now \<and> \<not> not_yet_valid d now \<and>
           issuer_ok d opts \<and> audience_ok d opts"
    and "jv tok secret opts now = Inl TokenExpiredError \<Longrightarrow>
           signature_ok tok secret opts \<and> (\<exists>d. claims_of tok = Some d \<and> is_expired d now)"
    and "jv tok secret opts now = Inl NotBeforeError \<Longrightarrow>
           signature_ok tok secret opts \<and> (\<exists>d. claims_of tok = Some d \<and> not_yet_valid d now)"
    and "jv tok secret opts now = Inl (JsonWebTokenError m) \<Longrightarrow>
           \<not> signature_ok tok secret opts \<or>
           (\<exists>d. claims_of tok = Some d \<and> (\<not> issuer_ok d opts \<or> \<not> audience_ok d opts))"
  using assms[unfolded jwt_verify_spec_def, rule_format, of tok secret opts now]
  by simp_all

lemma verifyToken_result:
  "verifyToken jv e now tok ty =
     (case jv tok (JWT_SECRET e) (verifyTokenOptions e) now of
        Inl err \<Rightarrow> Inl (LibraryError err)
      | Inr decoded \<Rightarrow>
          if tokenType decoded \<noteq> Some ty
          then Inl (PlainError (''Invalid token type. Expected '' @ ty @ '', got '' @
                 (case tokenType decoded of None \<Rightarrow> ''undefined'' | Some t \<Rightarrow> t)))
          else Inr decoded)"
  by (simp add: verifyToken_def verifyTokenOptions_def)

lemma signature_ok_verifyToken:
  "signature_ok tok (JWT_SECRET e) (verifyTokenOptions e) =
     (JWT_SECRET e \<noteq> [] \<and> (\<exists>p. tok = Jwt ''HS256'' (JWT_SECRET e) p))"
  by (cases tok) (auto simp: verifyTokenOptions_def allowed_algorithms_def)

lemma verifyToken_bad_signature:
  assumes "jwt_verify_spec jv"
    and "\<not> signature_ok tok (JWT_SECRET e) (verifyTokenOptions e)"
  shows "\<exists>m. verifyToken jv e now tok ty = Inl (LibraryError (JsonWebTokenError m))"
proof (cases "jv tok (JWT_SECRET e) (verifyTokenOptions e) now")
  case (Inr d)
  from spec_cases(1)[OF assms(1) Inr] assms(2) show ?thesis by simp
next
  case (Inl err)
  show ?thesis
  proof (cases err)
    case (JsonWebTokenError m)
    then show ?thesis by (simp add: verifyToken_result Inl)
  next
    case TokenExpiredError
    from spec_cases(2)[OF assms(1) Inl[unfolded TokenExpiredError]] assms(2)
    show ?thesis by simp
  next
    case NotBeforeError
    from spec_cases(3)[OF assms(1) Inl[unfolded NotBeforeError]] assms(2)
    show ?thesis by simp
  qed
qed

lemma verifyToken_bad_issuer_audience:
  assumes "jwt_verify_spec jv"
    and "claims_of tok = Some p"
    and "\<not> is_expired p now" and "\<not> not_yet_valid p now"
    and "\<not> issuer_ok p (verifyTokenOptions e) \<or> \<not> audience_ok p (verifyTokenOptions e)"
  shows "\<exists>m. verifyToken jv e now tok ty = Inl (LibraryError (JsonWebTokenError m))"
proof (cases "jv tok (JWT_SECRET e) (verifyTokenOptions e) now")
  case (Inr d)
  from spec_cases(1)[OF assms(1) Inr] assms(2,5) show ?thesis by auto
next
  case (Inl err)
  show ?thesis
  proof (cases err)
    case (JsonWebTokenError m)
    then show ?thesis by (simp add: verifyToken_result Inl)
  next
    case TokenExpiredError
    from spec_cases(2)[OF assms(1) Inl[unfolded TokenExpiredError]] assms(2,3)
    show ?thesis by simp
  next
    case NotBeforeError
    from spec_cases(3)[OF assms(1) Inl[unfolded NotBeforeError]] assms(2,4)
    show ?thesis by simp
  qed
qed

lemma verifyToken_expired:
  assumes "jwt_verify_spec jv"
    and "signature_ok tok (JWT_SECRET e) (verifyTokenOptions e)"
    and "claims_of tok = Some p"
    and "issuer_ok p (verifyTokenOptions e)" and "audience_ok p (verifyTokenOptions e)"
    and "\<not> not_yet_valid p now" and "is_expired p now"
  shows "verifyToken jv e now tok ty = Inl (LibraryError TokenExpiredError)"
proof (cases "jv tok (JWT_SECRET e) (verifyTokenOptions e) now")
  case (Inr d)
  from spec_cases(1)[OF assms(1) Inr] assms(3,7) show ?thesis by auto
next
  case (Inl err)
  show ?thesis
  proof (cases err)
    case (JsonWebTokenError m)
    from spec_cases(4)[OF assms(1) Inl[unfolded JsonWebTokenError]] assms(2-5)
    show ?thesis by simp
  next
    case TokenExpiredError
    then show ?thesis by (simp add: verifyToken_result Inl)
  next
    case NotBeforeError
    from spec_cases(3)[OF assms(1) Inl[unfolded NotBeforeError]] assms(3,6)
    show ?thesis by simp
  qed
qed

lemma verifyToken_wrong_type:
  assumes "jv tok (JWT_SECRET e) (verifyTokenOptions e) now = Inr d"
    and "tokenType d \<noteq> Some ty"
  shows "verifyToken jv e now tok ty =
     Inl (PlainError (''Invalid token type. Expected '' @ ty @ '', got '' @
            (case tokenType d of None \<Rightarrow> ''undefined'' | Some t \<Rightarrow> t)))"
  using assms by (simp add: verifyToken_result)

lemma verifyToken_success:
  assumes "jwt_verify_spec jv"
    and "verifyToken jv e now tok ty = Inr d"
  shows "signature_ok tok (JWT_SECRET e) (verifyTokenOptions e) \<and> claims_of tok = Some d \<and>
         \<not> is_expired d now \<and> issuer_ok d (verifyTokenOptions e) \<and>
         audience_ok d (verifyTokenOptions e) \<and> tokenType d = Some ty"
proof (cases "jv tok (JWT_SECRET e) (verifyTokenOptions e) now")
  case (Inl err)
  with assms(2) show ?thesis by (simp add: verifyToken_result)
next
  case (Inr d')
  with assms(2) have "d' = d" "tokenType d = Some ty"
    by (auto simp: verifyToken_result split: if_splits)
  with spec_cases(1)[OF assms(1) Inr] show ?thesis by simp
qed

text \<open>
  What \<open>verifyToken\<close> of \<open>utils/jwt.js\<close> does, given a \<open>jwt.verify\<close> that
  behaves as documented. It fails with a \<open>JsonWebTokenError\<close> when the token's signature
  or algorithm does not match the configuration, and when its issuer or audience does not
  (for a token inside its validity period); it fails with a \<open>TokenExpiredError\<close> for an
  otherwise matching token past its expiry; and it fails with a plain \<open>Error\<close> when the
  verified token's \<open>type\<close> differs from the expected type. In none of these cases does
  it return claims. The signature matches only for a token signed with \<open>HS256\<close> and the
  configured, non-empty secret, and the three error names are pairwise different.
\<close>

lemma verifyToken_rejects:
  assumes "jwt_verify_spec jv"
  shows "(\<not> signature_ok tok (JWT_SECRET e) (verifyTokenOptions e) \<longrightarrow>
            (\<exists>m. verifyToken jv e now tok ty = Inl (LibraryError (JsonWebTokenError m)))) \<and>
         (claims_of tok = Some p \<and> \<not> is_expired p now \<and> \<not> not_yet_valid p now \<and>
          (\<not> issuer_ok p (verifyTokenOptions e) \<or> \<not> audience_ok p (verifyTokenOptions e)) \<longrightarrow>
            (\<exists>m. verifyToken jv e now tok ty = Inl (LibraryError (JsonWebTokenError m)))) \<and>
         (signature_ok tok (JWT_SECRET e) (verifyTokenOptions e) \<and> claims_of tok = Some p \<and>
          issuer_ok p (verifyTokenOptions e) \<and> audience_ok p (verifyTokenOptions e) \<and>
          \<not> not_yet_valid p now \<and> is_expired p now \<longrightarrow>
            verifyToken jv e now tok ty = Inl (LibraryError TokenExpiredError)) \<and>
         (jv tok (JWT_SECRET e) (verifyTokenOptions e) now = Inr d \<and> tokenType d \<noteq> Some ty \<longrightarrow>
            (\<exists>m. verifyToken jv e now tok ty = Inl (PlainError m))) \<and>
         (\<not> signature_ok tok (JWT_SECRET e) (verifyTokenOptions e) \<or>
          (claims_of tok = Some p \<and>
             (is_expired p now \<or> \<not> issuer_ok p (verifyTokenOptions e) \<or>
              \<not> audience_ok p (verifyTokenOptions e) \<or> tokenType p \<noteq> Some ty)) \<longrightarrow>
            (\<forall>c. verifyToken jv e now tok ty \<noteq> Inr c)) \<and>
         signature_ok tok (JWT_SECRET e) (verifyTokenOptions e) =
            (JWT_SECRET e \<noteq> [] \<and> (\<exists>q. tok = Jwt ''HS256'' (JWT_SECRET e) q)) \<and>
         error_name (LibraryError (JsonWebTokenError m1)) \<noteq> error_name (LibraryError TokenExpiredError) \<and>
         error_name (LibraryError (JsonWebTokenError m1)) \<noteq> error_name (PlainError m2) \<and>
         error_name (LibraryError TokenExpiredError) \<noteq> error_name (PlainError m2)"
proof -
  have never: "\<forall>c. verifyToken jv e now tok ty \<noteq> Inr c"
    if "\<not> signature_ok tok (JWT_SECRET e) (verifyTokenOptions e) \<or>
          (claims_of tok = Some p \<and>
             (is_expired p now \<or> \<not> issuer_ok p (verifyTokenOptions e) \<or>
              \<not> audience_ok p (verifyTokenOptions e) \<or> tokenType p \<noteq> Some ty))"
  proof (intro allI notI)
    fix c assume "verifyToken jv e now tok ty = Inr c"
    from verifyToken_success[OF assms this] that show False by auto
  qed
  have A: "\<not> signature_ok tok (JWT_SECRET e) (verifyTokenOptions e) \<longrightarrow>
            (\<exists>m. verifyToken jv e now tok ty = Inl (LibraryError (JsonWebTokenError m)))"
    using verifyToken_bad_signature[OF assms] by blast
  have B: "claims_of tok = Some p \<and> \<not> is_expired p now \<and> \<not> not_yet_valid p now \<and>
          (\<not> issuer_ok p (verifyTokenOptions e) \<or> \<not> audience_ok p (verifyTokenOptions e)) \<longrightarrow>
            (\<exists>m. verifyToken jv e now tok ty = Inl (LibraryError (JsonWebTokenError m)))"
    using verifyToken_bad_issuer_audience[OF assms] by blast
  have C: "signature_ok tok (JWT_SECRET e) (verifyTokenOptions e) \<and> claims_of tok = Some p \<and>
          issuer_ok p (verifyTokenOptions e) \<and> audience_ok p (verifyTokenOptions e) \<and>
          \<not> not_yet_valid p now \<and> is_expired p now \<longrightarrow>
            verifyToken jv e now tok ty = Inl (LibraryError TokenExpiredError)"
    using verifyToken_expired[OF assms] by blast
  have D: "jv tok (JWT_SECRET e) (verifyTokenOptions e) now = Inr d \<and> tokenType d \<noteq> Some ty \<longrightarrow>
            (\<exists>m. verifyToken jv e now tok ty = Inl (PlainError m))"
    using verifyToken_wrong_type[of jv tok e now d ty] by blast
  have E: "\<not> signature_ok tok (JWT_SECRET e) (verifyTokenOptions e) \<or>
          (claims_of tok = Some p \<and>
             (is_expired p now \<or> \<not> issuer_ok p (verifyTokenOptions e) \<or>
              \<not> audience_ok p (verifyTokenOptions e) \<or> tokenType p \<noteq> Some ty)) \<longrightarrow>
            (\<forall>c. verifyToken jv e now tok ty \<noteq> Inr c)"
    using never by blast
  show ?thesis
    by (intro conjI A B C D E signature_ok_verifyToken) simp_all
qed

lemma verifyToken_rejects_examples:
  "jwt_verify_spec jwt_verify_ref \<and>
   \<not> signature_ok (Jwt ''HS256'' ''other'' (example_claims ''access''))
       (JWT_SECRET example_env) (verifyTokenOptions example_env) \<and>
   \<not> signature_ok (Jwt ''HS384'' ''s3cret'' (example_claims ''access''))
       (JWT_SECRET example_env) (verifyTokenOptions example_env) \<and>
   signature_ok example_access (JWT_SECRET example_env) (verifyTokenOptions example_env) \<and>
   is_expired (example_claims ''access'') 3000000 \<and>
   \<not> is_expired (example_claims ''access'') 1000000 \<and>
   verifyToken jwt_verify_ref example_env 1000000
     (Jwt ''HS256'' ''other'' (example_claims ''access'')) ''access'' =
       Inl (LibraryError (JsonWebTokenError ''invalid signature'')) \<and>
   verifyToken jwt_verify_ref example_env 1000000
     (Jwt ''HS384'' ''s3cret'' (example_claims ''access'')) ''access'' =
       Inl (LibraryError (JsonWebTokenError ''invalid algorithm'')) \<and>
   verifyToken jwt_verify_ref example_env 1000000
     (Jwt ''HS256'' ''s3cret'' ((example_claims ''access'') \<lparr> iss := Some ''someone-else'' \<rparr>))
     ''access'' = Inl (LibraryError (JsonWebTokenError ''jwt issuer invalid'')) \<and>
   verifyToken jwt_verify_ref example_env 3000000 example_access ''access'' =
       Inl (LibraryError TokenExpiredError) \<and>
   verifyToken jwt_verify_ref example_env 1000000 example_refresh ''access'' =
       Inl (PlainError ''Invalid token type. Expected access, got refresh'') \<and>
   verifyToken jwt_verify_ref example_env 1000000 example_access ''access'' =
       Inr (example_claims ''access'')"
proof -
  note defs = verifyToken_def example_env_def example_claims_def example_access_def
    example_refresh_def allowed_algorithms_def is_expired_def not_yet_valid_def
    issuer_ok_def audience_ok_def verifyTokenOptions_def
  have expired: "verifyToken jwt_verify_ref example_env 3000000 example_access ''access'' =
       Inl (LibraryError TokenExpiredError)"
  proof -
    have "signature_ok example_access (JWT_SECRET example_env) (verifyTokenOptions example_env) \<and>
          claims_of example_access = Some (example_claims ''access'') \<and>
          issuer_ok (example_claims ''access'') (verifyTokenOptions example_env) \<and>
          audience_ok (example_claims ''access'') (verifyTokenOptions example_env) \<and>
          \<not> not_yet_valid (example_claims ''access'') 3000000 \<and>
          is_expired (example_claims ''access'') 3000000"
      by (simp add: defs)
    with verifyToken_rejects[OF jwt_verify_ref_spec, where tok = example_access
        and e = example_env and p = "example_claims ''access''" and now = 3000000
        and ty = "''access''"]
    show ?thesis by blast
  qed
  show ?thesis
    by (intro conjI jwt_verify_ref_spec expired) (simp_all add: defs)
qed

text \<open>
  Claim C4 at the refresh controller (\<open>authController.js\<close>, lines 242--254), which
  verifies refresh tokens with its own \<open>jwt.verify\<close> call, without the \<open>algorithms\<close>
  option. A refresh token signed with the configured secret under \<open>HS512\<close> passes that
  verification: the flow goes on to the stored tokens, and issues a new access token when
  the token is stored, while \<open>verifyToken\<close> refuses the same token for its algorithm. An
  expired token and a token with a wrong signature get one and the same answer from the
  controller, while \<open>verifyToken\<close> tells them apart.
\<close>

theorem refresh_controller_verification:
  "refreshToken jwt_verify_ref example_env
     (\<lambda>i. if i = ''u1'' then Some example_session_user else None)
     example_access 1000000 (Some example_hs512_refresh) =
       (ErrorJson 401 ''Invalid Refresh Token''
          ''Refresh token is not valid or has been revoked'', None) \<and>
   refreshToken jwt_verify_ref example_env
     (\<lambda>i. if i = ''u1'' then Some example_hs512_user else None)
     example_access 1000000 (Some example_hs512_refresh) =
       (RefreshJson example_access ''7d'', None) \<and>
   verifyToken jwt_verify_ref example_env 1000000 example_hs512_refresh ''refresh'' =
       Inl (LibraryError (JsonWebTokenError ''invalid algorithm'')) \<and>
   refreshToken jwt_verify_ref example_env
     (\<lambda>i. if i = ''u1'' then Some example_session_user else None)
     example_access 3000000 (Some example_refresh) =
       (ErrorJson 401 ''Invalid Refresh Token'' ''Please login again'', None) \<and>
   refreshToken jwt_verify_ref example_env
     (\<lambda>i. if i = ''u1'' then Some example_session_user else None)
     example_access 1000000 (Some example_forged_refresh) =
       (ErrorJson 401 ''Invalid Refresh Token'' ''Please login again'', None) \<and>
   verifyToken jwt_verify_ref example_env 3000000 example_refresh ''refresh'' =
       Inl (LibraryError TokenExpiredError) \<and>
   verifyToken jwt_verify_ref example_env 1000000 example_forged_refresh ''refresh'' =
       Inl (LibraryError (JsonWebTokenError ''invalid signature''))"
  by (simp add: refreshToken_def verifyToken_def example_env_def example_claims_def
      example_refresh_def example_hs512_refresh_def example_forged_refresh_def
      example_session_user_def example_hs512_user_def allowed_algorithms_def
      is_expired_def not_yet_valid_def issuer_ok_def audience_ok_def)

section \<open>The refresh flow\<close>

text \<open>
  Claim C5. In the refresh flow, for a non-empty refresh token that the flow's own
  \<open>jwt.verify\<close> call accepts, whatever that function is: if the
  subject user no longer exists the answer is the 401 ``User no longer exists''; if the
  user exists and the token string is not among the user's \<open>refreshTokens\<close> the answer
  is the 401 ``Refresh token is not valid or has been revoked''; if it is among them the
  answer carries one new access token and nothing else, and no document is saved, so the
  refresh token is neither rotated nor reissued.
\<close>

theorem refresh_flow:
  assumes "rt \<noteq> NotJwt []"
    and "jv rt (JWT_SECRET e) refreshOptions now = Inr decoded"
    and "tokenType decoded = Some ''refresh''"
  shows "(findById (userId decoded) = None \<longrightarrow>
            refreshToken jv e findById acc now (Some rt) =
              (ErrorJson 401 ''Invalid Token'' ''User no longer exists'', None)) \<and>
         (findById (userId decoded) = Some u \<and> rt \<notin> token ` set (refreshTokens u) \<longrightarrow>
            refreshToken jv e findById acc now (Some rt) =
              (ErrorJson 401 ''Invalid Refresh Token''
                 ''Refresh token is not valid or has been revoked'', None)) \<and>
         (findById (userId decoded) = Some u \<and> rt \<in> token ` set (refreshTokens u) \<longrightarrow>
            refreshToken jv e findById acc now (Some rt) =
              (RefreshJson acc (or_default (JWT_EXPIRES_IN e) ''7d''), None))"
  using assms
  by (auto simp: refreshToken_def refreshOptions_def list_ex_iff image_iff)

theorem refresh_flow_witness:
  "example_refresh \<noteq> NotJwt [] \<and>
   jwt_verify_ref example_refresh (JWT_SECRET example_env) refreshOptions 1000000 =
     Inr (example_claims ''refresh'') \<and>
   refreshToken jwt_verify_ref example_env (\<lambda>i. None) example_access 1000000
     (Some example_refresh) =
       (ErrorJson 401 ''Invalid Token'' ''User no longer exists'', None) \<and>
   refreshToken jwt_verify_ref example_env (\<lambda>i. if i = ''u1'' then Some example_user else None)
     example_access 1000000 (Some example_refresh) =
       (ErrorJson 401 ''Invalid Refresh Token''
          ''Refresh token is not valid or has been revoked'', None) \<and>
   refreshToken jwt_verify_ref example_env
     (\<lambda>i. if i = ''u1'' then Some example_session_user else None)
     example_access 1000000 (Some example_refresh) = (RefreshJson example_access ''7d'', None)"
proof -
  note defs = example_env_def example_claims_def example_refresh_def
    allowed_algorithms_def is_expired_def not_yet_valid_def issuer_ok_def audience_ok_def
    refreshOptions_def
  have v: "jwt_verify_ref example_refresh (JWT_SECRET example_env) refreshOptions 1000000 =
     Inr (example_claims ''refresh'')"
    by (simp add: defs)
  have ne: "example_refresh \<noteq> NotJwt []"
    by (simp add: example_refresh_def)
  have t: "tokenType (example_claims ''refresh'') = Some ''refresh''"
    by (simp add: example_claims_def)
  have i: "userId (example_claims ''refresh'') = ''u1''"
    by (simp add: example_claims_def)
  have none: "refreshTokens example_user = []"
    by (simp add: example_user_def pre_save_sections new_user_def)
  have some: "refreshTokens example_session_user = [\<lparr> token = example_refresh, createdAt = 1000 \<rparr>]"
    by (simp add: example_session_user_def)
  have e7: "or_default (JWT_EXPIRES_IN example_env) ''7d'' = ''7d''"
    by (simp add: example_env_def)
  from refresh_flow[where jv = jwt_verify_ref and rt = example_refresh and e = example_env
      and now = 1000000 and decoded = "example_claims ''refresh''"
      and findById = "\<lambda>i. None"
      and acc = example_access and u = example_user, OF ne v t]
  have a: "refreshToken jwt_verify_ref example_env (\<lambda>i. None) example_access 1000000
     (Some example_refresh) = (ErrorJson 401 ''Invalid Token'' ''User no longer exists'', None)"
    by simp
  from refresh_flow[where jv = jwt_verify_ref and rt = example_refresh and e = example_env
      and now = 1000000 and decoded = "example_claims ''refresh''"
      and findById = "\<lambda>i. if i = ''u1'' then Some example_user else None"
      and u = example_user and acc = example_access, OF ne v t]
  have b: "refreshToken jwt_verify_ref example_env
     (\<lambda>i. if i = ''u1'' then Some example_user else None)
     example_access 1000000 (Some example_refresh) =
       (ErrorJson 401 ''Invalid Refresh Token''
          ''Refresh token is not valid or has been revoked'', None)"
    by (simp add: i none)
  from refresh_flow[where jv = jwt_verify_ref and rt = example_refresh and e = example_env
      and now = 1000000 and decoded = "example_claims ''refresh''"
      and findById = "\<lambda>i. if i = ''u1'' then Some example_session_user else None"
      and u = example_session_user and acc = example_access, OF ne v t]
  have c: "refreshToken jwt_verify_ref example_env
     (\<lambda>i. if i = ''u1'' then Some example_session_user else None)
     example_access 1000000 (Some example_refresh) = (RefreshJson example_access ''7d'', None)"
    by (simp add: i some e7)
  show ?thesis by (intro conjI ne v a b c)
qed

section \<open>The completion gate\<close>

lemma section_labels:
  "toLowerCase (replace_first ''has'' [] ''hasBasicInfo'') = ''basicinfo''"
  "toLowerCase (replace_first ''has'' [] ''hasLifestyle'') = ''lifestyle''"
  "toLowerCase (replace_first ''has'' [] ''hasMedicalHistory'') = ''medicalhistory''"
  "toLowerCase (replace_first ''has'' [] ''hasGoals'') = ''goals''"
  by code_simp+

lemma lower_labels:
  "toLowerCase ''BasicInfo'' = ''basicinfo''"
  "toLowerCase ''Lifestyle'' = ''lifestyle''"
  "toLowerCase ''MedicalHistory'' = ''medicalhistory''"
  "toLowerCase ''Goals'' = ''goals''"
  by code_simp+

lemma incomplete_names:
  "map (\<lambda>s. toLowerCase (replace_first ''has'' [] s))
     (filter (\<lambda>s. \<not> flag dq s) requiredSections) = missingSections dq"
  by (simp add: requiredSections_def flag_def missingSections_def lower_labels)

lemma missingSections_empty:
  "(missingSections dq = []) =
     (hasBasicInfo dq \<and> hasLifestyle dq \<and> hasMedicalHistory dq \<and> hasGoals dq)"
  by (simp add: missingSections_def)

lemma completeOnboarding_incomplete:
  assumes "missingSections (dataQuality u) \<noteq> []"
  shows "completeOnboarding (Some u) now today =
     (OnboardingError 400
        ''Please complete all required sections before finishing onboarding''
        (missingSections (dataQuality u)), Some u)"
proof -
  have "filter (\<lambda>s. \<not> flag (dataQuality u) s) requiredSections \<noteq> []"
    using assms incomplete_names[of "dataQuality u"] by auto
  then show ?thesis
    by (simp add: completeOnboarding_def Let_def incomplete_names)
qed

lemma completeOnboarding_complete:
  assumes "missingSections (dataQuality u) = []"
  shows "completeOnboarding (Some u) now today =
     (OnboardingDone ''Onboarding completed successfully! Welcome to your fitness journey.''
        (getOnboardingStatus (pre_save (u \<lparr> onboardingCompleted := True, onboardingStep := 6,
              sessionInfo := (sessionInfo u)
                \<lparr> completionTimestamp := Some now, completionDate := Some today,
                  sectionsCompleted := 4 \<rparr> \<rparr>))),
      Some (pre_save (u \<lparr> onboardingCompleted := True, onboardingStep := 6,
              sessionInfo := (sessionInfo u)
                \<lparr> completionTimestamp := Some now, completionDate := Some today,
                  sectionsCompleted := 4 \<rparr> \<rparr>)))"
proof -
  have "filter (\<lambda>s. \<not> flag (dataQuality u) s) requiredSections = []"
    using assms incomplete_names[of "dataQuality u"] by auto
  then show ?thesis
    by (simp add: completeOnboarding_def Let_def) (simp add: requiredSections_def)
qed

text \<open>
  Claim C8, as amended. When at least one of the four required flags of the user is
  false, \<open>completeOnboarding\<close> answers 400 with the names of the sections whose flag is
  false, and leaves the document exactly as it was: \<open>onboardingCompleted\<close> keeps the value
  it had, which is false unless onboarding was skipped or completed before. When all four
  flags are true it saves the document with \<open>onboardingCompleted\<close> true,
  \<open>onboardingStep\<close> 6, and the completion time, date and section count stamped in
  \<open>sessionInfo\<close>.
\<close>

theorem completeOnboarding_gate:
  "(\<not> (hasBasicInfo (dataQuality u) \<and> hasLifestyle (dataQuality u) \<and>
        hasMedicalHistory (dataQuality u) \<and> hasGoals (dataQuality u)) \<longrightarrow>
      missingSections (dataQuality u) \<noteq> [] \<and>
      completeOnboarding (Some u) now today =
        (OnboardingError 400
           ''Please complete all required sections before finishing onboarding''
           (missingSections (dataQuality u)), Some u) \<and>
      map_option onboardingCompleted (snd (completeOnboarding (Some u) now today)) =
        Some (onboardingCompleted u)) \<and>
   (hasBasicInfo (dataQuality u) \<and> hasLifestyle (dataQuality u) \<and>
    hasMedicalHistory (dataQuality u) \<and> hasGoals (dataQuality u) \<longrightarrow>
      (\<exists>status saved.
         completeOnboarding (Some u) now today =
           (OnboardingDone
              ''Onboarding completed successfully! Welcome to your fitness journey.'' status,
            Some saved) \<and>
         status = getOnboardingStatus saved \<and>
         onboardingCompleted saved \<and> onboardingStep saved = 6 \<and>
         sessionInfo saved =
           (sessionInfo u) \<lparr> completionTimestamp := Some now, completionDate := Some today,
                             sectionsCompleted := 4 \<rparr>))"
proof (intro conjI impI)
  assume "\<not> (hasBasicInfo (dataQuality u) \<and> hasLifestyle (dataQuality u) \<and>
        hasMedicalHistory (dataQuality u) \<and> hasGoals (dataQuality u))"
  then show "missingSections (dataQuality u) \<noteq> []"
    by (simp add: missingSections_empty)
  then show eq: "completeOnboarding (Some u) now today =
        (OnboardingError 400
           ''Please complete all required sections before finishing onboarding''
           (missingSections (dataQuality u)), Some u)"
    by (rule completeOnboarding_incomplete)
  show "map_option onboardingCompleted (snd (completeOnboarding (Some u) now today)) =
        Some (onboardingCompleted u)"
    by (simp add: eq)
next
  assume "hasBasicInfo (dataQuality u) \<and> hasLifestyle (dataQuality u) \<and>
    hasMedicalHistory (dataQuality u) \<and> hasGoals (dataQuality u)"
  then have "missingSections (dataQuality u) = []"
    by (simp add: missingSections_empty)
  from completeOnboarding_complete[OF this, of now today]
  show "\<exists>status saved.
         completeOnboarding (Some u) now today =
           (OnboardingDone
              ''Onboarding completed successfully! Welcome to your fitness journey.'' status,
            Some saved) \<and>
         status = getOnboardingStatus saved \<and>
         onboardingCompleted saved \<and> onboardingStep saved = 6 \<and>
         sessionInfo saved =
           (sessionInfo u) \<lparr> completionTimestamp := Some now, completionDate := Some today,
                             sectionsCompleted := 4 \<rparr>"
    by (simp add: pre_save_completed pre_save_step pre_save_sections)
qed

theorem completeOnboarding_gate_witness:
  "\<not> hasLifestyle (dataQuality example_missing_lifestyle) \<and>
   \<not> onboardingCompleted example_missing_lifestyle \<and>
   completeOnboarding (Some example_missing_lifestyle) 5000 ''2024-01-15'' =
     (OnboardingError 400
        ''Please complete all required sections before finishing onboarding''
        [''lifestyle''], Some example_missing_lifestyle) \<and>
   hasBasicInfo (dataQuality (updateSections example_user example_updates)) \<and>
   hasLifestyle (dataQuality (updateSections example_user example_updates)) \<and>
   hasMedicalHistory (dataQuality (updateSections example_user example_updates)) \<and>
   hasGoals (dataQuality (updateSections example_user example_updates)) \<and>
   fst (completeOnboarding (Some (updateSections example_user example_updates)) 5000 ''2024-01-15'') =
     OnboardingDone ''Onboarding completed successfully! Welcome to your fitness journey.''
       \<lparr> completed = True, step = 6, completeness = 100,
         sectionsCompletedMap = [(''basicInfo'', True), (''lifestyle'', True),
           (''medicalHistory'', True), (''goals'', True), (''preferences'', False)] \<rparr>"
proof -
  have f: "hasBasicInfo (dataQuality example_missing_lifestyle)"
      "\<not> hasLifestyle (dataQuality example_missing_lifestyle)"
      "hasMedicalHistory (dataQuality example_missing_lifestyle)"
      "hasGoals (dataQuality example_missing_lifestyle)"
      "\<not> onboardingCompleted example_missing_lifestyle"
    by code_simp+
  have g: "hasBasicInfo (dataQuality (updateSections example_user example_updates))"
      "hasLifestyle (dataQuality (updateSections example_user example_updates))"
      "hasMedicalHistory (dataQuality (updateSections example_user example_updates))"
      "hasGoals (dataQuality (updateSections example_user example_updates))"
    by code_simp+
  have m: "missingSections (dataQuality example_missing_lifestyle) = [''lifestyle'']"
    by (simp add: missingSections_def f)
  from completeOnboarding_gate[of example_missing_lifestyle 5000 "''2024-01-15''"] f m
  have a: "completeOnboarding (Some example_missing_lifestyle) 5000 ''2024-01-15'' =
     (OnboardingError 400
        ''Please complete all required sections before finishing onboarding''
        [''lifestyle''], Some example_missing_lifestyle)"
    by simp
  have b: "fst (completeOnboarding (Some (updateSections example_user example_updates)) 5000 ''2024-01-15'') =
     OnboardingDone ''Onboarding completed successfully! Welcome to your fitness journey.''
       \<lparr> completed = True, step = 6, completeness = 100,
         sectionsCompletedMap = [(''basicInfo'', True), (''lifestyle'', True),
           (''medicalHistory'', True), (''goals'', True), (''preferences'', False)] \<rparr>"
    by code_simp
  show ?thesis using f g a b by simp
qed

text \<open>
  The claim as it was stated fails on a user who skipped onboarding: no required flag is
  set, so \<open>completeOnboarding\<close> answers 400 with all four names, and
  \<open>onboardingCompleted\<close> is true before and after the call.
\<close>

theorem completeOnboarding_gate_counterexample:
  "snd (skipOnboarding (Some example_user) 1000 ''2024-01-15'') = Some example_skipped \<and>
   hasGoals (dataQuality example_skipped) = False \<and>
   completeOnboarding (Some example_skipped) 2000 ''2024-01-16'' =
     (OnboardingError 400
        ''Please complete all required sections before finishing onboarding''
        [''basicinfo'', ''lifestyle'', ''medicalhistory'', ''goals''], Some example_skipped) \<and>
   onboardingCompleted example_skipped = True"
proof -
  have a: "snd (skipOnboarding (Some example_user) 1000 ''2024-01-15'') = Some example_skipped"
    by (simp add: skipOnboarding_def Let_def example_skipped_def)
  have f: "hasBasicInfo (dataQuality example_skipped) = False"
      "hasLifestyle (dataQuality example_skipped) = False"
      "hasMedicalHistory (dataQuality example_skipped) = False"
      "hasGoals (dataQuality example_skipped) = False"
      "onboardingCompleted example_skipped = True"
    by code_simp+
  have m: "missingSections (dataQuality example_skipped) =
      [''basicinfo'', ''lifestyle'', ''medicalhistory'', ''goals'']"
    by (simp add: missingSections_def f)
  have b: "completeOnboarding (Some example_skipped) 2000 ''2024-01-16'' =
     (OnboardingError 400
        ''Please complete all required sections before finishing onboarding''
        [''basicinfo'', ''lifestyle'', ''medicalhistory'', ''goals''], Some example_skipped)"
    using completeOnboarding_incomplete[of example_skipped 2000 "''2024-01-16''"] m by simp
  show ?thesis using a f b by (intro conjI)
qed

end
